theory Spec2Isabelle
  imports Complex_Main "HOL-Library.Char_ord" "HOL-Library.List_Lexorder" "HOL-Library.Multiset"
begin

section \<open>Python values and exceptions\<close>

text \<open>
  The domain classes of \<^verbatim>\<open>school_system_backend.py\<close> are dynamically typed: the
  annotations \<^verbatim>\<open>name: str, age: int, email: str\<close> are not enforced, and the only
  run-time type test is \<^verbatim>\<open>isinstance(age, int)\<close>. Arguments are therefore modelled as
  Python values. A \<^verbatim>\<open>str\<close> is its UTF-8 byte sequence; the two characters the code
  looks for, \<^verbatim>\<open>@\<close> and \<^verbatim>\<open>.\<close>, are ASCII, so a byte of that value occurs in the
  encoding exactly when the character occurs in the string. A \<^verbatim>\<open>float\<close> carries its
  (finite) value; no modelled operation computes with it.
\<close>

datatype pyval =
    PyNone
  | PyBool bool
  | PyInt int
  | PyFloat real
  | PyStr string
  | PyList "pyval list"

text \<open>
  Exceptions are values. \<^verbatim>\<open>ValueError\<close> carries its message. \<^verbatim>\<open>IntegrityError\<close> is
  \<^verbatim>\<open>sqlite3.IntegrityError\<close> with the engine's message, which names the constraint
  that fired. \<^verbatim>\<open>TypeError\<close> and \<^verbatim>\<open>KeyError\<close> are what Python raises for
  \<^verbatim>\<open>x in 5\<close> and for a missing dictionary key. \<^verbatim>\<open>OverflowError\<close> is what the
  \<^verbatim>\<open>sqlite3\<close> module raises for an \<^verbatim>\<open>int\<close> outside 64 signed bits, and
  \<^verbatim>\<open>InterfaceError\<close> stands for the error it raises for a parameter of a type it does
  not support; neither is an \<^verbatim>\<open>IntegrityError\<close>.
\<close>

datatype error =
    ValueError string
  | TypeError
  | KeyError string
  | IntegrityError string
  | InterfaceError
  | OverflowError

text \<open>\<^verbatim>\<open>isinstance(v, int)\<close>: \<^verbatim>\<open>bool\<close> is a subclass of \<^verbatim>\<open>int\<close>.\<close>

fun isinstance_int :: "pyval \<Rightarrow> bool" where
  "isinstance_int (PyInt n) = True"
| "isinstance_int (PyBool b) = True"
| "isinstance_int v = False"

text \<open>The integer an \<^verbatim>\<open>int\<close> instance denotes (\<^verbatim>\<open>True\<close> is 1, \<^verbatim>\<open>False\<close> is 0).\<close>

fun int_value :: "pyval \<Rightarrow> int" where
  "int_value (PyInt n) = n"
| "int_value (PyBool b) = (if b then 1 else 0)"
| "int_value v = 0"

text \<open>
  \<^verbatim>\<open>c in v\<close> for a one-character string \<^verbatim>\<open>c\<close>: substring test on a \<^verbatim>\<open>str\<close>,
  element test on a \<^verbatim>\<open>list\<close> (a \<^verbatim>\<open>str\<close> equals only a \<^verbatim>\<open>str\<close>), and
  \<^verbatim>\<open>TypeError\<close> on a value that is not iterable.
\<close>

fun py_in :: "char \<Rightarrow> pyval \<Rightarrow> error + bool" where
  "py_in c (PyStr s) = Inr (c \<in> set s)"
| "py_in c (PyList xs) = Inr (PyStr [c] \<in> set xs)"
| "py_in c v = Inl TypeError"

section \<open>Domain model\<close>

text \<open>
  The three classes refer to each other through their relation lists
  (\<^verbatim>\<open>registered_courses\<close>, \<^verbatim>\<open>assigned_courses\<close>, \<^verbatim>\<open>enrolled_students\<close>) and through
  \<^verbatim>\<open>Course.instructor\<close>; an object is modelled by the value of its fields, a list of
  objects by the list of their values. The field \<^verbatim>\<open>_email\<close> is written \<open>email\<close>.
\<close>

record person =
  name :: pyval
  age :: pyval
  email :: pyval

datatype student =
  Student (s_name: pyval) (s_age: pyval) (s_email: pyval) (student_id: pyval)
          (registered_courses: "course list")
and instructor =
  Instructor (i_name: pyval) (i_age: pyval) (i_email: pyval) (instructor_id: pyval)
             (assigned_courses: "course list")
and course =
  Course (course_id: pyval) (course_name: pyval) (instructor: "instructor option")
         (enrolled_students: "student list")

definition age_error :: error where
  "age_error = ValueError ''Age must be a non-negative integer.''"

definition email_error :: error where
  "email_error = ValueError ''Email address is not valid.''"

text \<open>
  \<^verbatim>\<open>Person.__init__\<close>: the three fields are assigned, then the age is checked, then
  the email. \<^verbatim>\<open>or\<close> short-circuits, so \<^verbatim>\<open>age < 0\<close> is evaluated on \<^verbatim>\<open>int\<close>
  instances only and \<^verbatim>\<open>'.' not in email\<close> only when \<^verbatim>\<open>'@'\<close> was found.
\<close>

definition Person_init :: "pyval \<Rightarrow> pyval \<Rightarrow> pyval \<Rightarrow> error + person" where
  "Person_init nm ag em =
     (if \<not> isinstance_int ag \<or> int_value ag < 0 then Inl age_error
      else (case py_in CHR ''@'' em of
        Inl e \<Rightarrow> Inl e
      | Inr has_at \<Rightarrow>
          if \<not> has_at then Inl email_error
          else (case py_in CHR ''.'' em of
            Inl e \<Rightarrow> Inl e
          | Inr has_dot \<Rightarrow>
              if \<not> has_dot then Inl email_error
              else Inr \<lparr>name = nm, age = ag, email = em\<rparr>)))"

text \<open>\<^verbatim>\<open>Student.__init__\<close> and \<^verbatim>\<open>Instructor.__init__\<close>: the Person constructor runs
  first; the identifier is stored unchecked and the relation list starts empty.\<close>

definition Student_init :: "pyval \<Rightarrow> pyval \<Rightarrow> pyval \<Rightarrow> pyval \<Rightarrow> error + student" where
  "Student_init nm ag em sid =
     (case Person_init nm ag em of
        Inl e \<Rightarrow> Inl e
      | Inr p \<Rightarrow> Inr (Student (name p) (age p) (email p) sid []))"

definition Instructor_init :: "pyval \<Rightarrow> pyval \<Rightarrow> pyval \<Rightarrow> pyval \<Rightarrow> error + instructor" where
  "Instructor_init nm ag em iid =
     (case Person_init nm ag em of
        Inl e \<Rightarrow> Inl e
      | Inr p \<Rightarrow> Inr (Instructor (name p) (age p) (email p) iid []))"

text \<open>\<^verbatim>\<open>Course.__init__\<close> validates nothing.\<close>

definition Course_init :: "pyval \<Rightarrow> pyval \<Rightarrow> instructor option \<Rightarrow> course" where
  "Course_init cid cname inst = Course cid cname inst []"

subsection \<open>Export to and reconstruction from a dictionary\<close>

type_synonym pydict = "string \<rightharpoonup> pyval"

text \<open>\<^verbatim>\<open>data[k]\<close> raises \<^verbatim>\<open>KeyError\<close> when the key is missing.\<close>

definition getitem :: "pydict \<Rightarrow> string \<Rightarrow> error + pyval" where
  "getitem d k = (case d k of None \<Rightarrow> Inl (KeyError k) | Some v \<Rightarrow> Inr v)"

definition Student_to_dict :: "student \<Rightarrow> pydict" where
  "Student_to_dict s =
     [''name'' \<mapsto> s_name s,
      ''age'' \<mapsto> s_age s,
      ''email'' \<mapsto> s_email s,
      ''student_id'' \<mapsto> student_id s,
      ''registered_courses'' \<mapsto> PyList (map course_id (registered_courses s))]"

text \<open>\<^verbatim>\<open>Student.from_dict\<close>: the four subscripts are evaluated left to right, then the
  constructor is called; the key \<^verbatim>\<open>registered_courses\<close> is never read.\<close>

definition Student_from_dict :: "pydict \<Rightarrow> error + student" where
  "Student_from_dict d =
     (case getitem d ''name'' of Inl e \<Rightarrow> Inl e | Inr nm \<Rightarrow>
       (case getitem d ''age'' of Inl e \<Rightarrow> Inl e | Inr ag \<Rightarrow>
         (case getitem d ''email'' of Inl e \<Rightarrow> Inl e | Inr em \<Rightarrow>
           (case getitem d ''student_id'' of Inl e \<Rightarrow> Inl e | Inr sid \<Rightarrow>
              Student_init nm ag em sid))))"

definition Instructor_to_dict :: "instructor \<Rightarrow> pydict" where
  "Instructor_to_dict i =
     [''name'' \<mapsto> i_name i,
      ''age'' \<mapsto> i_age i,
      ''email'' \<mapsto> i_email i,
      ''instructor_id'' \<mapsto> instructor_id i,
      ''assigned_courses'' \<mapsto> PyList (map course_id (assigned_courses i))]"

definition Instructor_from_dict :: "pydict \<Rightarrow> error + instructor" where
  "Instructor_from_dict d =
     (case getitem d ''name'' of Inl e \<Rightarrow> Inl e | Inr nm \<Rightarrow>
       (case getitem d ''age'' of Inl e \<Rightarrow> Inl e | Inr ag \<Rightarrow>
         (case getitem d ''email'' of Inl e \<Rightarrow> Inl e | Inr em \<Rightarrow>
           (case getitem d ''instructor_id'' of Inl e \<Rightarrow> Inl e | Inr iid \<Rightarrow>
              Instructor_init nm ag em iid))))"

section \<open>Storage engine\<close>

text \<open>
  \<^verbatim>\<open>database_manager.py\<close> sends one SQL statement per operation to SQLite through the
  \<^verbatim>\<open>sqlite3\<close> module. A stored value is one of SQLite's storage classes (no operation
  of the program binds \<^verbatim>\<open>bytes\<close>, so there is no BLOB).
\<close>

datatype sqlval = NULL | INTEGER int | REAL real | TEXT string

text \<open>
  Binding a Python value to a \<^verbatim>\<open>?\<close> placeholder: \<^verbatim>\<open>None\<close> is NULL, an \<^verbatim>\<open>int\<close>
  (and so a \<^verbatim>\<open>bool\<close>) is an INTEGER when it fits in 64 signed bits and raises
  \<^verbatim>\<open>OverflowError\<close> otherwise, a \<^verbatim>\<open>float\<close> is a REAL, a \<^verbatim>\<open>str\<close> is a TEXT, and a
  \<^verbatim>\<open>list\<close> is not supported. The error is raised by \<^verbatim>\<open>cursor.execute\<close> before the
  statement runs.
\<close>

fun bind_param :: "pyval \<Rightarrow> error + sqlval" where
  "bind_param PyNone = Inr NULL"
| "bind_param (PyBool b) = Inr (INTEGER (if b then 1 else 0))"
| "bind_param (PyInt n) =
     (if - (2 ^ 63) \<le> n \<and> n < 2 ^ 63 then Inr (INTEGER n) else Inl OverflowError)"
| "bind_param (PyFloat r) = Inr (REAL r)"
| "bind_param (PyStr s) = Inr (TEXT s)"
| "bind_param (PyList xs) = Inl InterfaceError"

text \<open>
  The SQL comparison \<^verbatim>\<open>a = b\<close> as a condition: a comparison with NULL is never true,
  an INTEGER and a REAL are compared by value, a number never equals a text, and texts
  are compared byte by byte.
\<close>

fun sql_eq :: "sqlval \<Rightarrow> sqlval \<Rightarrow> bool" where
  "sql_eq (INTEGER i) (INTEGER j) = (i = j)"
| "sql_eq (INTEGER i) (REAL r) = (real_of_int i = r)"
| "sql_eq (REAL r) (INTEGER i) = (r = real_of_int i)"
| "sql_eq (REAL r) (REAL q) = (r = q)"
| "sql_eq (TEXT s) (TEXT t) = (s = t)"
| "sql_eq a b = False"

text \<open>
  The order of \<^verbatim>\<open>ORDER BY\<close>: NULLs first, then numbers by value, then texts in the
  order of their bytes (the default collation).
\<close>

fun sql_le :: "sqlval \<Rightarrow> sqlval \<Rightarrow> bool" where
  "sql_le NULL b = True"
| "sql_le a NULL = False"
| "sql_le (INTEGER i) (INTEGER j) = (i \<le> j)"
| "sql_le (INTEGER i) (REAL r) = (real_of_int i \<le> r)"
| "sql_le (REAL r) (INTEGER i) = (r \<le> real_of_int i)"
| "sql_le (REAL r) (REAL q) = (r \<le> q)"
| "sql_le (INTEGER i) (TEXT t) = True"
| "sql_le (REAL r) (TEXT t) = True"
| "sql_le (TEXT s) (INTEGER i) = False"
| "sql_le (TEXT s) (REAL r) = False"
| "sql_le (TEXT s) (TEXT t) = (s \<le> t)"

type_synonym person_row = "sqlval \<times> sqlval \<times> sqlval \<times> sqlval"
type_synonym course_row = "sqlval \<times> sqlval \<times> sqlval"
type_synonym registration_row = "sqlval \<times> sqlval"
type_synonym display_row = "sqlval \<times> sqlval \<times> sqlval \<times> sqlval"

text \<open>
  The state behind \<^verbatim>\<open>self.conn\<close>: the four tables, each a list of rows in the order
  a full scan returns them, and the connection's \<^verbatim>\<open>PRAGMA foreign_keys\<close> setting.
  Every operation of \<^verbatim>\<open>DatabaseManager\<close> commits at once and there is one connection,
  so the committed state is the only state.
\<close>

text \<open>
  Modelled from the spec: the table declarations live in \<^verbatim>\<open>database_schema.sql\<close>,
  which \<^verbatim>\<open>setup_database\<close> executes and which is not among the sources. The layout is
  the one of the specification:
  \<^verbatim>\<open>students(student_id PRIMARY KEY, name, age, email)\<close>,
  \<^verbatim>\<open>instructors(instructor_id PRIMARY KEY, name, age, email)\<close>,
  \<^verbatim>\<open>courses(course_id PRIMARY KEY, course_name, instructor_id REFERENCES instructors)\<close>,
  \<^verbatim>\<open>registrations(student_id REFERENCES students, course_id REFERENCES courses,
  UNIQUE(student_id, course_id))\<close>,
  with no declared column type (a value is stored as it was bound) and no
  \<^verbatim>\<open>ON DELETE\<close> action. Whether the references are enforced is the connection's
  setting, the field \<open>foreign_keys\<close>.
\<close>

record db =
  foreign_keys :: bool
  students :: "person_row list"
  instructors :: "person_row list"
  courses :: "course_row list"
  registrations :: "registration_row list"


text \<open>The result of an operation: what it returns or raises, and the state it leaves.\<close>

type_synonym 'a outcome = "(error + 'a) \<times> db"

subsection \<open>Statements\<close>

text \<open>Modelled from the spec: the primary key of \<^verbatim>\<open>students\<close> (schema script absent).
  \<^verbatim>\<open>INSERT INTO students\<close> fails when a stored key equals the new one.\<close>

definition insert_student :: "db \<Rightarrow> person_row \<Rightarrow> unit outcome" where
  "insert_student d row =
     (if \<exists>r \<in> set (students d). sql_eq (fst r) (fst row)
      then (Inl (IntegrityError ''UNIQUE constraint failed: students.student_id''), d)
      else (Inr (), d\<lparr>students := students d @ [row]\<rparr>))"

text \<open>Modelled from the spec: the primary key of \<^verbatim>\<open>instructors\<close> (schema script absent).\<close>

definition insert_instructor :: "db \<Rightarrow> person_row \<Rightarrow> unit outcome" where
  "insert_instructor d row =
     (if \<exists>r \<in> set (instructors d). sql_eq (fst r) (fst row)
      then (Inl (IntegrityError ''UNIQUE constraint failed: instructors.instructor_id''), d)
      else (Inr (), d\<lparr>instructors := instructors d @ [row]\<rparr>))"

text \<open>Modelled from the spec: a reference of the schema (schema script absent). A child
  key satisfies it when it is NULL or equals a key of the parent table; nothing is
  checked while enforcement is off.\<close>

definition fk_ok :: "bool \<Rightarrow> sqlval \<Rightarrow> sqlval list \<Rightarrow> bool" where
  "fk_ok enforced child parent_keys =
     (\<not> enforced \<or> child = NULL \<or> (\<exists>k \<in> set parent_keys. sql_eq k child))"

text \<open>Modelled from the spec: the primary key of \<^verbatim>\<open>courses\<close> and its reference to
  \<^verbatim>\<open>instructors\<close> (schema script absent). The uniqueness check runs as the row is
  written, the reference is checked when the statement ends.\<close>

definition insert_course :: "db \<Rightarrow> course_row \<Rightarrow> unit outcome" where
  "insert_course d row =
     (if \<exists>r \<in> set (courses d). sql_eq (fst r) (fst row)
      then (Inl (IntegrityError ''UNIQUE constraint failed: courses.course_id''), d)
      else if \<not> fk_ok (foreign_keys d) (snd (snd row)) (map fst (instructors d))
      then (Inl (IntegrityError ''FOREIGN KEY constraint failed''), d)
      else (Inr (), d\<lparr>courses := courses d @ [row]\<rparr>))"

text \<open>Modelled from the spec: the unique pair of \<^verbatim>\<open>registrations\<close> and its two
  references (schema script absent).\<close>

definition insert_registration :: "db \<Rightarrow> registration_row \<Rightarrow> unit outcome" where
  "insert_registration d row =
     (if \<exists>r \<in> set (registrations d). sql_eq (fst r) (fst row) \<and> sql_eq (snd r) (snd row)
      then (Inl (IntegrityError
              ''UNIQUE constraint failed: registrations.student_id, registrations.course_id''), d)
      else if \<not> fk_ok (foreign_keys d) (fst row) (map fst (students d))
            \<or> \<not> fk_ok (foreign_keys d) (snd row) (map fst (courses d))
      then (Inl (IntegrityError ''FOREIGN KEY constraint failed''), d)
      else (Inr (), d\<lparr>registrations := registrations d @ [row]\<rparr>))"

text \<open>\<^verbatim>\<open>SELECT * FROM t WHERE key = ?\<close>: the rows whose first column equals the
  parameter.\<close>

definition matching :: "sqlval \<Rightarrow> ('a \<Rightarrow> sqlval) \<Rightarrow> 'a list \<Rightarrow> 'a list" where
  "matching k key rows = filter (\<lambda>r. sql_eq (key r) k) rows"

text \<open>\<^verbatim>\<open>cursor.fetchone()\<close>: the first row of the result, or \<^verbatim>\<open>None\<close>.\<close>

definition fetchone :: "'a list \<Rightarrow> 'a option" where
  "fetchone rows = (case rows of [] \<Rightarrow> None | r # _ \<Rightarrow> Some r)"

text \<open>\<^verbatim>\<open>UPDATE students SET name = ?, age = ?, email = ? WHERE student_id = ?\<close> (and the
  same statement on \<^verbatim>\<open>instructors\<close>): the key column is not assigned, so no constraint
  of the schema can fire.\<close>

definition update_person_rows :: "sqlval \<Rightarrow> sqlval \<Rightarrow> sqlval \<Rightarrow> sqlval \<Rightarrow> person_row list \<Rightarrow> person_row list" where
  "update_person_rows n a e k rows =
     map (\<lambda>r. if sql_eq (fst r) k then (fst r, n, a, e) else r) rows"

text \<open>Modelled from the spec: the reference of \<^verbatim>\<open>courses.instructor_id\<close> (schema
  script absent). \<^verbatim>\<open>UPDATE courses SET course_name = ?, instructor_id = ? WHERE
  course_id = ?\<close> checks it for the rows it changes.\<close>

definition update_course_rows :: "db \<Rightarrow> sqlval \<Rightarrow> sqlval \<Rightarrow> sqlval \<Rightarrow> unit outcome" where
  "update_course_rows d cn iid k =
     (if matching k fst (courses d) \<noteq> []
         \<and> \<not> fk_ok (foreign_keys d) iid (map fst (instructors d))
      then (Inl (IntegrityError ''FOREIGN KEY constraint failed''), d)
      else (Inr (), d\<lparr>courses :=
              map (\<lambda>r. if sql_eq (fst r) k then (fst r, cn, iid) else r) (courses d)\<rparr>))"

text \<open>Modelled from the spec: the references to a parent table (schema script absent).
  Deleting a parent row is refused, while enforcement is on, when a child row holds
  its key; with no \<^verbatim>\<open>ON DELETE\<close> action nothing cascades.\<close>

definition delete_blocked :: "bool \<Rightarrow> sqlval \<Rightarrow> sqlval list \<Rightarrow> sqlval list \<Rightarrow> bool" where
  "delete_blocked enforced k parent_keys child_keys =
     (enforced \<and> (\<exists>p \<in> set parent_keys. sql_eq p k \<and> (\<exists>c \<in> set child_keys. sql_eq c p)))"

section \<open>Data access layer\<close>

text \<open>\<^verbatim>\<open>add_student\<close>: the four parameters are bound in the order of the tuple
  \<^verbatim>\<open>(student_id, name, age, _email)\<close>, the row is inserted, and an
  \<^verbatim>\<open>IntegrityError\<close> is caught and raised again unchanged.\<close>

definition add_student :: "db \<Rightarrow> student \<Rightarrow> unit outcome" where
  "add_student d st =
     (case bind_param (student_id st) of Inl e \<Rightarrow> (Inl e, d) | Inr k \<Rightarrow>
       (case bind_param (s_name st) of Inl e \<Rightarrow> (Inl e, d) | Inr n \<Rightarrow>
         (case bind_param (s_age st) of Inl e \<Rightarrow> (Inl e, d) | Inr a \<Rightarrow>
           (case bind_param (s_email st) of Inl e \<Rightarrow> (Inl e, d) | Inr e \<Rightarrow>
              insert_student d (k, n, a, e)))))"

definition get_all_students :: "db \<Rightarrow> person_row list" where
  "get_all_students d = students d"

definition get_student_by_id :: "db \<Rightarrow> pyval \<Rightarrow> error + person_row option" where
  "get_student_by_id d sid =
     (case bind_param sid of
        Inl e \<Rightarrow> Inl e
      | Inr k \<Rightarrow> Inr (fetchone (matching k fst (students d))))"

definition update_student :: "db \<Rightarrow> student \<Rightarrow> unit outcome" where
  "update_student d st =
     (case bind_param (s_name st) of Inl e \<Rightarrow> (Inl e, d) | Inr n \<Rightarrow>
       (case bind_param (s_age st) of Inl e \<Rightarrow> (Inl e, d) | Inr a \<Rightarrow>
         (case bind_param (s_email st) of Inl e \<Rightarrow> (Inl e, d) | Inr e \<Rightarrow>
           (case bind_param (student_id st) of Inl e \<Rightarrow> (Inl e, d) | Inr k \<Rightarrow>
              (Inr (), d\<lparr>students := update_person_rows n a e k (students d)\<rparr>)))))"

definition delete_student :: "db \<Rightarrow> pyval \<Rightarrow> unit outcome" where
  "delete_student d sid =
     (case bind_param sid of
        Inl e \<Rightarrow> (Inl e, d)
      | Inr k \<Rightarrow>
          if delete_blocked (foreign_keys d) k (map fst (students d))
               (map fst (registrations d))
          then (Inl (IntegrityError ''FOREIGN KEY constraint failed''), d)
          else (Inr (), d\<lparr>students := filter (\<lambda>r. \<not> sql_eq (fst r) k) (students d)\<rparr>))"

definition add_instructor :: "db \<Rightarrow> instructor \<Rightarrow> unit outcome" where
  "add_instructor d i =
     (case bind_param (instructor_id i) of Inl e \<Rightarrow> (Inl e, d) | Inr k \<Rightarrow>
       (case bind_param (i_name i) of Inl e \<Rightarrow> (Inl e, d) | Inr n \<Rightarrow>
         (case bind_param (i_age i) of Inl e \<Rightarrow> (Inl e, d) | Inr a \<Rightarrow>
           (case bind_param (i_email i) of Inl e \<Rightarrow> (Inl e, d) | Inr e \<Rightarrow>
              insert_instructor d (k, n, a, e)))))"

definition get_all_instructors :: "db \<Rightarrow> person_row list" where
  "get_all_instructors d = instructors d"

definition get_instructor_by_id :: "db \<Rightarrow> pyval \<Rightarrow> error + person_row option" where
  "get_instructor_by_id d iid =
     (case bind_param iid of
        Inl e \<Rightarrow> Inl e
      | Inr k \<Rightarrow> Inr (fetchone (matching k fst (instructors d))))"

definition update_instructor :: "db \<Rightarrow> instructor \<Rightarrow> unit outcome" where
  "update_instructor d i =
     (case bind_param (i_name i) of Inl e \<Rightarrow> (Inl e, d) | Inr n \<Rightarrow>
       (case bind_param (i_age i) of Inl e \<Rightarrow> (Inl e, d) | Inr a \<Rightarrow>
         (case bind_param (i_email i) of Inl e \<Rightarrow> (Inl e, d) | Inr e \<Rightarrow>
           (case bind_param (instructor_id i) of Inl e \<Rightarrow> (Inl e, d) | Inr k \<Rightarrow>
              (Inr (), d\<lparr>instructors := update_person_rows n a e k (instructors d)\<rparr>)))))"

definition delete_instructor :: "db \<Rightarrow> pyval \<Rightarrow> unit outcome" where
  "delete_instructor d iid =
     (case bind_param iid of
        Inl e \<Rightarrow> (Inl e, d)
      | Inr k \<Rightarrow>
          if delete_blocked (foreign_keys d) k (map fst (instructors d))
               (map (\<lambda>r. snd (snd r)) (courses d))
          then (Inl (IntegrityError ''FOREIGN KEY constraint failed''), d)
          else (Inr (), d\<lparr>instructors := filter (\<lambda>r. \<not> sql_eq (fst r) k) (instructors d)\<rparr>))"

text \<open>\<^verbatim>\<open>course.instructor.instructor_id if course.instructor else None\<close>: an
  \<^verbatim>\<open>Instructor\<close> object is always true.\<close>

definition course_instructor_id :: "course \<Rightarrow> pyval" where
  "course_instructor_id c =
     (case instructor c of None \<Rightarrow> PyNone | Some i \<Rightarrow> instructor_id i)"

definition add_course :: "db \<Rightarrow> course \<Rightarrow> unit outcome" where
  "add_course d c =
     (case bind_param (course_id c) of Inl e \<Rightarrow> (Inl e, d) | Inr k \<Rightarrow>
       (case bind_param (course_name c) of Inl e \<Rightarrow> (Inl e, d) | Inr cn \<Rightarrow>
         (case bind_param (course_instructor_id c) of Inl e \<Rightarrow> (Inl e, d) | Inr iid \<Rightarrow>
            insert_course d (k, cn, iid))))"

definition get_all_courses :: "db \<Rightarrow> course_row list" where
  "get_all_courses d = courses d"

definition get_course_by_id :: "db \<Rightarrow> pyval \<Rightarrow> error + course_row option" where
  "get_course_by_id d cid =
     (case bind_param cid of
        Inl e \<Rightarrow> Inl e
      | Inr k \<Rightarrow> Inr (fetchone (matching k fst (courses d))))"

definition update_course :: "db \<Rightarrow> course \<Rightarrow> unit outcome" where
  "update_course d c =
     (case bind_param (course_name c) of Inl e \<Rightarrow> (Inl e, d) | Inr cn \<Rightarrow>
       (case bind_param (course_instructor_id c) of Inl e \<Rightarrow> (Inl e, d) | Inr iid \<Rightarrow>
         (case bind_param (course_id c) of Inl e \<Rightarrow> (Inl e, d) | Inr k \<Rightarrow>
            update_course_rows d cn iid k)))"

definition delete_course :: "db \<Rightarrow> pyval \<Rightarrow> unit outcome" where
  "delete_course d cid =
     (case bind_param cid of
        Inl e \<Rightarrow> (Inl e, d)
      | Inr k \<Rightarrow>
          if delete_blocked (foreign_keys d) k (map fst (courses d))
               (map snd (registrations d))
          then (Inl (IntegrityError ''FOREIGN KEY constraint failed''), d)
          else (Inr (), d\<lparr>courses := filter (\<lambda>r. \<not> sql_eq (fst r) k) (courses d)\<rparr>))"

definition register_student_in_course :: "db \<Rightarrow> pyval \<Rightarrow> pyval \<Rightarrow> unit outcome" where
  "register_student_in_course d sid cid =
     (case bind_param sid of Inl e \<Rightarrow> (Inl e, d) | Inr s \<Rightarrow>
       (case bind_param cid of Inl e \<Rightarrow> (Inl e, d) | Inr c \<Rightarrow>
          insert_registration d (s, c)))"

subsection \<open>The display query\<close>

text \<open>
  \<^verbatim>\<open>FROM registrations r JOIN students s ON r.student_id = s.student_id
  JOIN courses c ON r.course_id = c.course_id\<close>, projected to
  \<^verbatim>\<open>s.student_id, s.name, c.course_id, c.course_name\<close>.
\<close>

definition registrations_join :: "db \<Rightarrow> display_row list" where
  "registrations_join d =
     concat (map (\<lambda>r.
       concat (map (\<lambda>s.
         map (\<lambda>c. (fst s, fst (snd s), fst c, fst (snd c)))
             (filter (\<lambda>c. sql_eq (snd r) (fst c)) (courses d)))
         (filter (\<lambda>s. sql_eq (fst r) (fst s)) (students d))))
       (registrations d))"

text \<open>\<^verbatim>\<open>ORDER BY s.name, c.course_name\<close>: the second column decides, and the fourth
  where the second columns are equal in the order.\<close>

definition display_le :: "display_row \<Rightarrow> display_row \<Rightarrow> bool" where
  "display_le x y =
     (let nx = fst (snd x); ny = fst (snd y);
          cx = snd (snd (snd x)); cy = snd (snd (snd y))
      in if sql_le nx ny \<and> sql_le ny nx then sql_le cx cy else sql_le nx ny)"

text \<open>The engine's sort. SQL leaves the order of rows that are equal in the sort key
  open; the model keeps them in the order of the join.\<close>

fun insort_by :: "('a \<Rightarrow> 'a \<Rightarrow> bool) \<Rightarrow> 'a \<Rightarrow> 'a list \<Rightarrow> 'a list" where
  "insort_by le x [] = [x]"
| "insort_by le x (y # ys) = (if le x y then x # y # ys else y # insort_by le x ys)"

definition order_by :: "('a \<Rightarrow> 'a \<Rightarrow> bool) \<Rightarrow> 'a list \<Rightarrow> 'a list" where
  "order_by le rows = foldr (insort_by le) rows []"

definition get_registrations_for_display :: "db \<Rightarrow> display_row list" where
  "get_registrations_for_display d = order_by display_le (registrations_join d)"

subsection \<open>The constraints as a property of the state\<close>

text \<open>
  Modelled from the spec: the uniqueness constraints of the schema (schema script
  absent), as the engine guarantees them of every stored state: no two rows of a table
  have equal primary keys, and no two registrations have equal pairs. A NULL equals
  nothing, so rows with a NULL key never collide.
\<close>

fun unique_by :: "('a \<Rightarrow> 'a \<Rightarrow> bool) \<Rightarrow> 'a list \<Rightarrow> bool" where
  "unique_by same [] = True"
| "unique_by same (x # xs) = ((\<forall>y \<in> set xs. \<not> same x y) \<and> unique_by same xs)"

definition same_key :: "sqlval \<times> 'a \<Rightarrow> sqlval \<times> 'a \<Rightarrow> bool" where
  "same_key r q = sql_eq (fst r) (fst q)"

definition same_pair :: "registration_row \<Rightarrow> registration_row \<Rightarrow> bool" where
  "same_pair r q = (sql_eq (fst r) (fst q) \<and> sql_eq (snd r) (snd q))"

definition constraints_hold :: "db \<Rightarrow> bool" where
  "constraints_hold d =
     (unique_by same_key (students d) \<and> unique_by same_key (instructors d)
      \<and> unique_by same_key (courses d) \<and> unique_by same_pair (registrations d))"

subsection \<open>A stored state to evaluate on\<close>

text \<open>Two students, an instructor, two courses, and both students registered for both
  courses, with the references enforced.\<close>

definition example_db :: db where
  "example_db =
     \<lparr>foreign_keys = True,
      students = [(TEXT ''S1'', TEXT ''Bob'', INTEGER 21, TEXT ''bob@x.com''),
                  (TEXT ''S2'', TEXT ''Alice'', INTEGER 20, TEXT ''alice@x.com'')],
      instructors = [(TEXT ''I1'', TEXT ''Eve'', INTEGER 40, TEXT ''eve@x.com'')],
      courses = [(TEXT ''C1'', TEXT ''Math'', TEXT ''I1''), (TEXT ''C2'', TEXT ''Art'', NULL)],
      registrations = [(TEXT ''S1'', TEXT ''C1''), (TEXT ''S1'', TEXT ''C2''),
                       (TEXT ''S2'', TEXT ''C1''), (TEXT ''S2'', TEXT ''C2'')]\<rparr>"

text \<open>Two states that hold the same rows and differ in the order of two registrations:
  two students of the same name are registered for one course.\<close>

definition namesakes_db :: db where
  "namesakes_db =
     \<lparr>foreign_keys = False,
      students = [(TEXT ''S1'', TEXT ''Sam'', INTEGER 21, TEXT ''sam1@x.com''),
                  (TEXT ''S2'', TEXT ''Sam'', INTEGER 22, TEXT ''sam2@x.com'')],
      instructors = [],
      courses = [(TEXT ''C1'', TEXT ''Math'', NULL)],
      registrations = [(TEXT ''S1'', TEXT ''C1''), (TEXT ''S2'', TEXT ''C1'')]\<rparr>"

definition namesakes_db' :: db where
  "namesakes_db' =
     namesakes_db\<lparr>registrations := [(TEXT ''S2'', TEXT ''C1''), (TEXT ''S1'', TEXT ''C1'')]\<rparr>"

section \<open>Properties of the domain model\<close>

lemma py_in_error: "py_in c v = Inl e \<Longrightarrow> e = TypeError"
  by (cases v) auto

lemma Person_init_age_valid:
  "isinstance_int ag \<Longrightarrow> 0 \<le> int_value ag \<Longrightarrow>
   Person_init nm ag (PyStr e) =
     (if CHR ''@'' \<in> set e \<and> CHR ''.'' \<in> set e
      then Inr \<lparr>name = nm, age = ag, email = PyStr e\<rparr> else Inl email_error)"
  by (simp add: Person_init_def)

text \<open>
  Claim C4. When the age is not an \<^verbatim>\<open>int\<close> instance or is negative, constructing a
  Person, a Student or an Instructor raises \<^verbatim>\<open>ValueError\<close> with the message
  \<^verbatim>\<open>Age must be a non-negative integer.\<close>, whatever the other arguments are. When the
  age is an \<^verbatim>\<open>int\<close> instance that is at least 0, the construction does not raise
  that error. Python counts \<^verbatim>\<open>True\<close> and \<^verbatim>\<open>False\<close> as the integers 1 and 0.
\<close>

theorem age_check:
  "(\<not> isinstance_int ag \<or> int_value ag < 0 \<longrightarrow>
      Person_init nm ag em = Inl (ValueError ''Age must be a non-negative integer.'')
    \<and> Student_init nm ag em sid = Inl (ValueError ''Age must be a non-negative integer.'')
    \<and> Instructor_init nm ag em iid = Inl (ValueError ''Age must be a non-negative integer.''))
   \<and> (isinstance_int ag \<and> 0 \<le> int_value ag \<longrightarrow>
      Person_init nm ag em \<noteq> Inl (ValueError ''Age must be a non-negative integer.'')
    \<and> Student_init nm ag em sid \<noteq> Inl (ValueError ''Age must be a non-negative integer.'')
    \<and> Instructor_init nm ag em iid \<noteq> Inl (ValueError ''Age must be a non-negative integer.''))"
  by (auto simp: Person_init_def Student_init_def Instructor_init_def age_error_def email_error_def
      split: sum.splits if_splits dest: py_in_error)

theorem age_check_witness:
  "Person_init (PyStr ''Ann'') (PyInt (- 1)) (PyStr ''ann@x.com'')
     = Inl (ValueError ''Age must be a non-negative integer.'')
   \<and> Student_init (PyStr ''Ann'') (PyStr ''20'') (PyStr ''ann@x.com'') (PyStr ''S1'')
     = Inl (ValueError ''Age must be a non-negative integer.'')
   \<and> Person_init (PyStr ''Ann'') (PyInt 20) (PyStr ''ann@x.com'')
     \<noteq> Inl (ValueError ''Age must be a non-negative integer.'')"
  using age_check [of "PyInt (- 1)" "PyStr ''Ann''" "PyStr ''ann@x.com''" "PyStr ''S1''" "PyStr ''I1''"]
        age_check [of "PyStr ''20''" "PyStr ''Ann''" "PyStr ''ann@x.com''" "PyStr ''S1''" "PyStr ''I1''"]
        age_check [of "PyInt 20" "PyStr ''Ann''" "PyStr ''ann@x.com''" "PyStr ''S1''" "PyStr ''I1''"]
  by simp

text \<open>
  Claim C5, as amended. For an age that passes the age check (an \<^verbatim>\<open>int\<close> instance
  that is at least 0) and an email that is a string, constructing a Person, a Student
  or an Instructor raises \<^verbatim>\<open>ValueError\<close> with the message
  \<^verbatim>\<open>Email address is not valid.\<close> exactly when the string lacks \<^verbatim>\<open>@\<close> or lacks
  \<^verbatim>\<open>.\<close>; a string that contains both is accepted without any further check.
\<close>

theorem email_check:
  "isinstance_int ag \<Longrightarrow> 0 \<le> int_value ag \<Longrightarrow>
   (Person_init nm ag (PyStr e) = Inl (ValueError ''Email address is not valid.'')
      \<longleftrightarrow> (CHR ''@'' \<notin> set e \<or> CHR ''.'' \<notin> set e))
   \<and> (Student_init nm ag (PyStr e) sid = Inl (ValueError ''Email address is not valid.'')
      \<longleftrightarrow> (CHR ''@'' \<notin> set e \<or> CHR ''.'' \<notin> set e))
   \<and> (Instructor_init nm ag (PyStr e) iid = Inl (ValueError ''Email address is not valid.'')
      \<longleftrightarrow> (CHR ''@'' \<notin> set e \<or> CHR ''.'' \<notin> set e))
   \<and> (CHR ''@'' \<in> set e \<and> CHR ''.'' \<in> set e \<longrightarrow>
        Person_init nm ag (PyStr e) = Inr \<lparr>name = nm, age = ag, email = PyStr e\<rparr>
      \<and> Student_init nm ag (PyStr e) sid = Inr (Student nm ag (PyStr e) sid [])
      \<and> Instructor_init nm ag (PyStr e) iid = Inr (Instructor nm ag (PyStr e) iid []))"
  by (simp add: Person_init_age_valid Student_init_def Instructor_init_def email_error_def)

theorem email_check_witness:
  "Person_init (PyStr ''Ann'') (PyInt 20) (PyStr ''ann.x.com'')
     = Inl (ValueError ''Email address is not valid.'')
   \<and> Student_init (PyStr ''Ann'') (PyInt 20) (PyStr ''.@'') (PyStr ''S1'')
     = Inr (Student (PyStr ''Ann'') (PyInt 20) (PyStr ''.@'') (PyStr ''S1'') [])"
  using email_check [of "PyInt 20" "PyStr ''Ann''" "''ann.x.com''" "PyStr ''S1''" "PyStr ''I1''"]
        email_check [of "PyInt 20" "PyStr ''Ann''" "''.@''" "PyStr ''S1''" "PyStr ''I1''"]
  by simp

text \<open>
  The claim as it is written fails where the age is invalid too: \<^verbatim>\<open>Person("Ann", -1,
  "ann")\<close> has an email without \<^verbatim>\<open>@\<close>, yet the error it raises is the age error.
\<close>

theorem email_check_counterexample:
  "\<not> (Person_init (PyStr ''Ann'') (PyInt (- 1)) (PyStr ''ann'')
        = Inl (ValueError ''Email address is not valid.'')
      \<longleftrightarrow> (CHR ''@'' \<notin> set ''ann'' \<or> CHR ''.'' \<notin> set ''ann''))"
  by (simp add: Person_init_def age_error_def)

text \<open>
  Claim C6. For any name, any age that is an \<^verbatim>\<open>int\<close> instance and at least 0, any
  email string that contains \<^verbatim>\<open>@\<close> and \<^verbatim>\<open>.\<close> and any identifier, constructing a
  Student or an Instructor succeeds, and \<^verbatim>\<open>from_dict(to_dict(x))\<close> returns an object
  with the same name, age, email and identifier as \<open>x\<close>, whatever the relation list
  of \<open>x\<close> holds.
\<close>

theorem dict_round_trip:
  "isinstance_int ag \<Longrightarrow> 0 \<le> int_value ag \<Longrightarrow>
   CHR ''@'' \<in> set e \<Longrightarrow> CHR ''.'' \<in> set e \<Longrightarrow>
     Student_init nm ag (PyStr e) sid = Inr (Student nm ag (PyStr e) sid [])
   \<and> Student_from_dict (Student_to_dict (Student nm ag (PyStr e) sid cs))
        = Inr (Student nm ag (PyStr e) sid [])
   \<and> Instructor_init nm ag (PyStr e) iid = Inr (Instructor nm ag (PyStr e) iid [])
   \<and> Instructor_from_dict (Instructor_to_dict (Instructor nm ag (PyStr e) iid cs))
        = Inr (Instructor nm ag (PyStr e) iid [])"
  by (simp add: Student_from_dict_def Student_to_dict_def Instructor_from_dict_def
      Instructor_to_dict_def getitem_def Student_init_def Instructor_init_def
      Person_init_age_valid)

theorem dict_round_trip_witness:
  "Student_init (PyStr ''Ann'') (PyInt 20) (PyStr ''ann@x.com'') (PyStr ''S1'')
     = Inr (Student (PyStr ''Ann'') (PyInt 20) (PyStr ''ann@x.com'') (PyStr ''S1'') [])
   \<and> Student_from_dict (Student_to_dict
        (Student (PyStr ''Ann'') (PyInt 20) (PyStr ''ann@x.com'') (PyStr ''S1'')
           [Course (PyStr ''C1'') (PyStr ''Algebra'') None []]))
     = Inr (Student (PyStr ''Ann'') (PyInt 20) (PyStr ''ann@x.com'') (PyStr ''S1'') [])
   \<and> Instructor_from_dict (Instructor_to_dict
        (Instructor (PyStr ''Eve'') (PyBool True) (PyStr ''e@x.y'') (PyInt 7) []))
     = Inr (Instructor (PyStr ''Eve'') (PyBool True) (PyStr ''e@x.y'') (PyInt 7) [])"
  using dict_round_trip [of "PyInt 20" "''ann@x.com''" "PyStr ''Ann''" "PyStr ''S1''"
          "[Course (PyStr ''C1'') (PyStr ''Algebra'') None []]" "PyStr ''I1''"]
        dict_round_trip [of "PyBool True" "''e@x.y''" "PyStr ''Eve''" "PyStr ''S1''" "[]" "PyInt 7"]
  by simp

text \<open>
  Claim C9. The age is checked before the email: when the age is invalid (not an
  \<^verbatim>\<open>int\<close> instance, or negative) and the email string lacks \<^verbatim>\<open>@\<close> or \<^verbatim>\<open>.\<close>, the
  construction raises the age error and not the email error.
\<close>

theorem age_before_email:
  "\<not> isinstance_int ag \<or> int_value ag < 0 \<Longrightarrow>
   CHR ''@'' \<notin> set e \<or> CHR ''.'' \<notin> set e \<Longrightarrow>
     Person_init nm ag (PyStr e) = Inl (ValueError ''Age must be a non-negative integer.'')
   \<and> Person_init nm ag (PyStr e) \<noteq> Inl (ValueError ''Email address is not valid.'')
   \<and> Student_init nm ag (PyStr e) sid = Inl (ValueError ''Age must be a non-negative integer.'')
   \<and> Instructor_init nm ag (PyStr e) iid = Inl (ValueError ''Age must be a non-negative integer.'')"
  by (simp add: Person_init_def Student_init_def Instructor_init_def age_error_def)

theorem age_before_email_witness:
  "Person_init (PyStr ''Ann'') (PyFloat 20.5) (PyStr ''ann'')
     = Inl (ValueError ''Age must be a non-negative integer.'')
   \<and> Student_init (PyStr ''Ann'') (PyInt (- 3)) (PyStr ''ann@x'') (PyStr ''S1'')
     = Inl (ValueError ''Age must be a non-negative integer.'')"
  using age_before_email [of "PyFloat 20.5" "''ann''" "PyStr ''Ann''" "PyStr ''S1''" "PyStr ''I1''"]
        age_before_email [of "PyInt (- 3)" "''ann@x''" "PyStr ''Ann''" "PyStr ''S1''" "PyStr ''I1''"]
  by simp

lemma Person_init_valid:
  "isinstance_int ag \<Longrightarrow> 0 \<le> int_value ag \<Longrightarrow> CHR ''@'' \<in> set e \<Longrightarrow> CHR ''.'' \<in> set e \<Longrightarrow>
   Person_init nm ag (PyStr e) = Inr \<lparr>name = nm, age = ag, email = PyStr e\<rparr>"
  by (simp add: Person_init_age_valid)

text \<open>
  Claim C10. \<^verbatim>\<open>Student.from_dict\<close> and \<^verbatim>\<open>Instructor.from_dict\<close> do not depend on the
  entry \<^verbatim>\<open>registered_courses\<close> (\<^verbatim>\<open>assigned_courses\<close>) of the dictionary, present or
  not, and every object they return has an empty relation list. They do return an
  object, with the fields of the dictionary and an empty relation list, for every
  dictionary that holds a name, a valid age, a valid email string and the identifier,
  whatever its relation entry is; for every dictionary their result is that of the
  constructor on the four entries, or the \<^verbatim>\<open>KeyError\<close> of the first entry that is
  missing.
\<close>

theorem from_dict_empty_lists:
  "Student_from_dict (d(''registered_courses'' := x)) = Student_from_dict d
   \<and> Instructor_from_dict (d(''assigned_courses'' := x)) = Instructor_from_dict d
   \<and> (\<forall>s. Student_from_dict d = Inr s \<longrightarrow> registered_courses s = [])
   \<and> (\<forall>i. Instructor_from_dict d = Inr i \<longrightarrow> assigned_courses i = [])
   \<and> (d ''name'' = Some nm \<and> d ''age'' = Some ag \<and> d ''email'' = Some (PyStr e)
        \<and> isinstance_int ag \<and> 0 \<le> int_value ag
        \<and> CHR ''@'' \<in> set e \<and> CHR ''.'' \<in> set e \<longrightarrow>
        (d ''student_id'' = Some sid \<longrightarrow>
           Student_from_dict (d(''registered_courses'' := x))
             = Inr (Student nm ag (PyStr e) sid []))
      \<and> (d ''instructor_id'' = Some iid \<longrightarrow>
           Instructor_from_dict (d(''assigned_courses'' := x))
             = Inr (Instructor nm ag (PyStr e) iid [])))
   \<and> Student_from_dict d =
        (case d ''name'' of None \<Rightarrow> Inl (KeyError ''name'') | Some n \<Rightarrow>
          (case d ''age'' of None \<Rightarrow> Inl (KeyError ''age'') | Some a \<Rightarrow>
            (case d ''email'' of None \<Rightarrow> Inl (KeyError ''email'') | Some m \<Rightarrow>
              (case d ''student_id'' of None \<Rightarrow> Inl (KeyError ''student_id'') | Some k \<Rightarrow>
                 Student_init n a m k))))
   \<and> Instructor_from_dict d =
        (case d ''name'' of None \<Rightarrow> Inl (KeyError ''name'') | Some n \<Rightarrow>
          (case d ''age'' of None \<Rightarrow> Inl (KeyError ''age'') | Some a \<Rightarrow>
            (case d ''email'' of None \<Rightarrow> Inl (KeyError ''email'') | Some m \<Rightarrow>
              (case d ''instructor_id'' of None \<Rightarrow> Inl (KeyError ''instructor_id'') | Some k \<Rightarrow>
                 Instructor_init n a m k))))"
proof (intro conjI allI impI; (elim conjE)?)
  show "Student_from_dict (d(''registered_courses'' := x)) = Student_from_dict d"
    by (auto simp: Student_from_dict_def getitem_def split: sum.splits option.splits)
  show "Instructor_from_dict (d(''assigned_courses'' := x)) = Instructor_from_dict d"
    by (auto simp: Instructor_from_dict_def getitem_def split: sum.splits option.splits)
  show "registered_courses s = []" if "Student_from_dict d = Inr s" for s
    using that by (auto simp: Student_from_dict_def getitem_def Student_init_def
        split: sum.splits option.splits)
  show "assigned_courses i = []" if "Instructor_from_dict d = Inr i" for i
    using that by (auto simp: Instructor_from_dict_def getitem_def Instructor_init_def
        split: sum.splits option.splits)
  show "Student_from_dict (d(''registered_courses'' := x))
             = Inr (Student nm ag (PyStr e) sid [])"
    if "d ''name'' = Some nm" "d ''age'' = Some ag" "d ''email'' = Some (PyStr e)"
       "isinstance_int ag" "0 \<le> int_value ag" "CHR ''@'' \<in> set e" "CHR ''.'' \<in> set e"
       "d ''student_id'' = Some sid"
    using that by (simp add: Student_from_dict_def getitem_def Student_init_def Person_init_valid)
  show "Instructor_from_dict (d(''assigned_courses'' := x))
             = Inr (Instructor nm ag (PyStr e) iid [])"
    if "d ''name'' = Some nm" "d ''age'' = Some ag" "d ''email'' = Some (PyStr e)"
       "isinstance_int ag" "0 \<le> int_value ag" "CHR ''@'' \<in> set e" "CHR ''.'' \<in> set e"
       "d ''instructor_id'' = Some iid"
    using that by (simp add: Instructor_from_dict_def getitem_def Instructor_init_def
        Person_init_valid)
  show "Student_from_dict d =
        (case d ''name'' of None \<Rightarrow> Inl (KeyError ''name'') | Some n \<Rightarrow>
          (case d ''age'' of None \<Rightarrow> Inl (KeyError ''age'') | Some a \<Rightarrow>
            (case d ''email'' of None \<Rightarrow> Inl (KeyError ''email'') | Some m \<Rightarrow>
              (case d ''student_id'' of None \<Rightarrow> Inl (KeyError ''student_id'') | Some k \<Rightarrow>
                 Student_init n a m k))))"
    by (simp add: Student_from_dict_def getitem_def split: option.splits)
  show "Instructor_from_dict d =
        (case d ''name'' of None \<Rightarrow> Inl (KeyError ''name'') | Some n \<Rightarrow>
          (case d ''age'' of None \<Rightarrow> Inl (KeyError ''age'') | Some a \<Rightarrow>
            (case d ''email'' of None \<Rightarrow> Inl (KeyError ''email'') | Some m \<Rightarrow>
              (case d ''instructor_id'' of None \<Rightarrow> Inl (KeyError ''instructor_id'') | Some k \<Rightarrow>
                 Instructor_init n a m k))))"
    by (simp add: Instructor_from_dict_def getitem_def split: option.splits)
qed

theorem from_dict_empty_lists_witness:
  "Student_from_dict
     ([''name'' \<mapsto> PyStr ''Ann'', ''age'' \<mapsto> PyInt 20, ''email'' \<mapsto> PyStr ''ann@x.com'',
       ''student_id'' \<mapsto> PyStr ''S1''](''registered_courses'' \<mapsto> PyList [PyStr ''C1'']))
     = Inr (Student (PyStr ''Ann'') (PyInt 20) (PyStr ''ann@x.com'') (PyStr ''S1'') [])
   \<and> Instructor_from_dict
     ([''name'' \<mapsto> PyStr ''Eve'', ''age'' \<mapsto> PyInt 40, ''email'' \<mapsto> PyStr ''eve@x.com'',
       ''instructor_id'' \<mapsto> PyStr ''I1''](''assigned_courses'' \<mapsto> PyList [PyStr ''C1'', PyStr ''C2'']))
     = Inr (Instructor (PyStr ''Eve'') (PyInt 40) (PyStr ''eve@x.com'') (PyStr ''I1'') [])"
proof -
  define ds :: pydict where "ds = [''name'' \<mapsto> PyStr ''Ann'', ''age'' \<mapsto> PyInt 20,
    ''email'' \<mapsto> PyStr ''ann@x.com'', ''student_id'' \<mapsto> PyStr ''S1'']"
  define di :: pydict where "di = [''name'' \<mapsto> PyStr ''Eve'', ''age'' \<mapsto> PyInt 40,
    ''email'' \<mapsto> PyStr ''eve@x.com'', ''instructor_id'' \<mapsto> PyStr ''I1'']"
  have hs: "ds ''name'' = Some (PyStr ''Ann'') \<and> ds ''age'' = Some (PyInt 20)
      \<and> ds ''email'' = Some (PyStr ''ann@x.com'')
      \<and> isinstance_int (PyInt 20) \<and> 0 \<le> int_value (PyInt 20)
      \<and> CHR ''@'' \<in> set ''ann@x.com'' \<and> CHR ''.'' \<in> set ''ann@x.com''"
    and ks: "ds ''student_id'' = Some (PyStr ''S1'')"
    by (simp_all add: ds_def)
  have hi: "di ''name'' = Some (PyStr ''Eve'') \<and> di ''age'' = Some (PyInt 40)
      \<and> di ''email'' = Some (PyStr ''eve@x.com'')
      \<and> isinstance_int (PyInt 40) \<and> 0 \<le> int_value (PyInt 40)
      \<and> CHR ''@'' \<in> set ''eve@x.com'' \<and> CHR ''.'' \<in> set ''eve@x.com''"
    and ki: "di ''instructor_id'' = Some (PyStr ''I1'')"
    by (simp_all add: di_def)
  have s: "Student_from_dict (ds(''registered_courses'' \<mapsto> PyList [PyStr ''C1'']))
     = Inr (Student (PyStr ''Ann'') (PyInt 20) (PyStr ''ann@x.com'') (PyStr ''S1'') [])"
    using from_dict_empty_lists [of ds "Some (PyList [PyStr ''C1''])" "PyStr ''Ann''" "PyInt 20"
        "''ann@x.com''" "PyStr ''S1''" "PyStr ''I1''"] hs ks
    by blast
  have i: "Instructor_from_dict (di(''assigned_courses'' \<mapsto> PyList [PyStr ''C1'', PyStr ''C2'']))
     = Inr (Instructor (PyStr ''Eve'') (PyInt 40) (PyStr ''eve@x.com'') (PyStr ''I1'') [])"
    using from_dict_empty_lists [of di "Some (PyList [PyStr ''C1'', PyStr ''C2''])" "PyStr ''Eve''"
        "PyInt 40" "''eve@x.com''" "PyStr ''S1''" "PyStr ''I1''"] hi ki
    by blast
  from s i show ?thesis unfolding ds_def di_def by blast
qed

section \<open>Properties of the data access layer\<close>

lemma sql_eq_sym: "sql_eq a b = sql_eq b a"
  by (cases a; cases b) auto

lemma sql_eq_trans: "sql_eq a b \<Longrightarrow> sql_eq b c \<Longrightarrow> sql_eq a c"
  by (cases a; cases b; cases c) auto

lemma sql_eq_common: "sql_eq a k \<Longrightarrow> sql_eq b k \<Longrightarrow> sql_eq a b"
  using sql_eq_sym sql_eq_trans by blast

text \<open>Under a uniqueness constraint, a condition that only equal rows can share selects
  exactly the stored row that satisfies it.\<close>

lemma unique_by_filter_single:
  assumes "unique_by same rows" and "r \<in> set rows" and "P r"
    and "\<And>x y. P x \<Longrightarrow> P y \<Longrightarrow> same x y"
  shows "filter P rows = [r]"
  using assms(1,2)
proof (induction rows)
  case Nil
  then show ?case by simp
next
  case (Cons x xs)
  show ?case
  proof (cases "r = x")
    case True
    have "\<not> P y" if "y \<in> set xs" for y
      using Cons.prems(1) that assms(3,4) True by auto
    then have "filter P xs = []" by (simp add: filter_empty_conv)
    with True assms(3) show ?thesis by simp
  next
    case False
    with Cons.prems have r: "r \<in> set xs" by simp
    have "\<not> P x" using Cons.prems(1) r assms(3,4) by auto
    moreover have "filter P xs = [r]" using Cons.IH Cons.prems(1) r by simp
    ultimately show ?thesis by simp
  qed
qed

lemma matching_single:
  "unique_by same_key rows \<Longrightarrow> r \<in> set rows \<Longrightarrow> sql_eq (fst r) k \<Longrightarrow>
   matching k fst rows = [r]"
  unfolding matching_def
  by (rule unique_by_filter_single [where same = same_key])
     (auto simp: same_key_def intro: sql_eq_common)

lemma pair_single:
  "unique_by same_pair rows \<Longrightarrow> r \<in> set rows \<Longrightarrow> sql_eq (fst r) s \<Longrightarrow> sql_eq (snd r) c \<Longrightarrow>
   filter (\<lambda>q. sql_eq (fst q) s \<and> sql_eq (snd q) c) rows = [r]"
  by (rule unique_by_filter_single [where same = same_pair])
     (auto simp: same_pair_def intro: sql_eq_common)

lemma delete_blocked_iff:
  "delete_blocked enforced k (map fst parents) (map key children) =
     (enforced \<and> (\<exists>p \<in> set parents. sql_eq (fst p) k
                   \<and> (\<exists>c \<in> set children. sql_eq (key c) (fst p))))"
  by (auto simp: delete_blocked_def)

lemma update_person_rows_no_match:
  "\<forall>r \<in> set rows. \<not> sql_eq (fst r) k \<Longrightarrow> update_person_rows n a e k rows = rows"
  by (simp add: update_person_rows_def map_idI)

lemma example_db_constraints: "constraints_hold example_db"
  by (simp add: constraints_hold_def example_db_def same_key_def same_pair_def)

text \<open>Every operation of the data access layer, failed or not, leaves a state in
  which the uniqueness constraints hold.\<close>

lemma unique_by_append:
  "unique_by same (xs @ [x]) = (unique_by same xs \<and> (\<forall>y \<in> set xs. \<not> same y x))"
  by (induction xs) auto

lemma unique_by_filter: "unique_by same xs \<Longrightarrow> unique_by same (filter P xs)"
  by (induction xs) auto

lemma unique_by_map_key:
  "(\<And>x. fst (f x) = fst x) \<Longrightarrow> unique_by same_key (map f xs) = unique_by same_key xs"
  by (induction xs) (auto simp: same_key_def)

lemma insert_preserves:
  "constraints_hold d \<Longrightarrow> constraints_hold (snd (insert_student d row))"
  "constraints_hold d \<Longrightarrow> constraints_hold (snd (insert_instructor d row))"
  "constraints_hold d \<Longrightarrow> constraints_hold (snd (insert_course d crow))"
  "constraints_hold d \<Longrightarrow> constraints_hold (snd (insert_registration d rrow))"
  by (auto simp: constraints_hold_def insert_student_def insert_instructor_def insert_course_def
      insert_registration_def unique_by_append same_key_def same_pair_def)

lemma constraints_preserved:
  assumes "constraints_hold d"
  shows "constraints_hold (snd (add_student d st))"
    and "constraints_hold (snd (update_student d st))"
    and "constraints_hold (snd (delete_student d sid))"
    and "constraints_hold (snd (add_instructor d i))"
    and "constraints_hold (snd (update_instructor d i))"
    and "constraints_hold (snd (delete_instructor d iid))"
    and "constraints_hold (snd (add_course d c))"
    and "constraints_hold (snd (update_course d c))"
    and "constraints_hold (snd (delete_course d cid))"
    and "constraints_hold (snd (register_student_in_course d sid cid))"
proof -
  show "constraints_hold (snd (add_student d st))"
    using assms by (auto simp: add_student_def insert_preserves split: sum.splits)
  show "constraints_hold (snd (add_instructor d i))"
    using assms by (auto simp: add_instructor_def insert_preserves split: sum.splits)
  show "constraints_hold (snd (add_course d c))"
    using assms by (auto simp: add_course_def insert_preserves split: sum.splits)
  show "constraints_hold (snd (register_student_in_course d sid cid))"
    using assms by (auto simp: register_student_in_course_def insert_preserves split: sum.splits)
  show "constraints_hold (snd (update_student d st))"
    using assms by (auto simp: update_student_def update_person_rows_def constraints_hold_def
        unique_by_map_key split: sum.splits)
  show "constraints_hold (snd (update_instructor d i))"
    using assms by (auto simp: update_instructor_def update_person_rows_def constraints_hold_def
        unique_by_map_key split: sum.splits)
  show "constraints_hold (snd (update_course d c))"
    using assms by (auto simp: update_course_def update_course_rows_def constraints_hold_def
        unique_by_map_key split: sum.splits)
  show "constraints_hold (snd (delete_student d sid))"
    using assms by (auto simp: delete_student_def constraints_hold_def unique_by_filter
        split: sum.splits)
  show "constraints_hold (snd (delete_instructor d iid))"
    using assms by (auto simp: delete_instructor_def constraints_hold_def unique_by_filter
        split: sum.splits)
  show "constraints_hold (snd (delete_course d cid))"
    using assms by (auto simp: delete_course_def constraints_hold_def unique_by_filter
        split: sum.splits)
qed

text \<open>The refusal of a delete rests on the enforcement of the references alone: with
  \<^verbatim>\<open>PRAGMA foreign_keys\<close> off, \<^verbatim>\<open>delete_student\<close> removes the student whether or not
  registrations refer to it, and leaves those registrations in place.\<close>

lemma delete_student_unenforced:
  "\<not> foreign_keys d \<Longrightarrow> bind_param sid = Inr k \<Longrightarrow>
   delete_student d sid
     = (Inr (), d\<lparr>students := filter (\<lambda>r. \<not> sql_eq (fst r) k) (students d)\<rparr>)"
  by (simp add: delete_student_def delete_blocked_def)

text \<open>A registration that succeeds stores the pair it was called with.\<close>

lemma register_then_stored:
  "register_student_in_course d sid cid = (Inr (), d') \<Longrightarrow>
   \<exists>s c. bind_param sid = Inr s \<and> bind_param cid = Inr c
     \<and> registrations d' = registrations d @ [(s, c)]"
  by (auto simp: register_student_in_course_def insert_registration_def
      split: sum.splits if_splits)

text \<open>
  With the references enforced, deleting a stored student who has a row in
  \<^verbatim>\<open>registrations\<close> raises \<^verbatim>\<open>IntegrityError\<close> for the foreign key, and afterwards
  \<^verbatim>\<open>get_student_by_id\<close> still returns the student's row; no student and no
  registration is removed. \<open>sid\<close> is the identifier passed, \<open>k\<close> the value it is
  bound to, \<open>s\<close> the student's row and \<open>r\<close> one of the student's registrations.
\<close>

lemma delete_student_enforced:
  assumes "foreign_keys d" and "constraints_hold d"
    and "bind_param sid = Inr k"
    and "s \<in> set (students d)" and "sql_eq (fst s) k"
    and "r \<in> set (registrations d)" and "sql_eq (fst r) (fst s)"
  shows "delete_student d sid = (Inl (IntegrityError ''FOREIGN KEY constraint failed''), d)
       \<and> get_student_by_id (snd (delete_student d sid)) sid = Inr (Some s)
       \<and> get_all_students (snd (delete_student d sid)) = get_all_students d
       \<and> registrations (snd (delete_student d sid)) = registrations d"
proof -
  have blocked: "delete_blocked (foreign_keys d) k (map fst (students d))
                   (map fst (registrations d))"
    unfolding delete_blocked_iff using assms by blast
  then have del: "delete_student d sid
      = (Inl (IntegrityError ''FOREIGN KEY constraint failed''), d)"
    using assms(3) by (simp add: delete_student_def)
  have "matching k fst (students d) = [s]"
    using assms by (intro matching_single) (auto simp: constraints_hold_def)
  then have "get_student_by_id d sid = Inr (Some s)"
    using assms(3) by (simp add: get_student_by_id_def fetchone_def)
  with del show ?thesis by simp
qed

lemma delete_student_enforced_example:
  "delete_student example_db (PyStr ''S1'')
     = (Inl (IntegrityError ''FOREIGN KEY constraint failed''), example_db)
   \<and> get_student_by_id (snd (delete_student example_db (PyStr ''S1''))) (PyStr ''S1'')
     = Inr (Some (TEXT ''S1'', TEXT ''Bob'', INTEGER 21, TEXT ''bob@x.com''))"
proof -
  have fk: "foreign_keys example_db" by (simp add: example_db_def)
  have s: "(TEXT ''S1'', TEXT ''Bob'', INTEGER 21, TEXT ''bob@x.com'') \<in> set (students example_db)"
    by (simp add: example_db_def)
  have r: "(TEXT ''S1'', TEXT ''C2'') \<in> set (registrations example_db)"
    by (simp add: example_db_def)
  have b: "bind_param (PyStr ''S1'') = Inr (TEXT ''S1'')" by simp
  have e: "sql_eq (fst (TEXT ''S1'', TEXT ''Bob'', INTEGER 21, TEXT ''bob@x.com'')) (TEXT ''S1'')"
    and e': "sql_eq (fst (TEXT ''S1'', TEXT ''C2''))
               (fst (TEXT ''S1'', TEXT ''Bob'', INTEGER 21, TEXT ''bob@x.com''))"
    by simp_all
  show ?thesis
    using delete_student_enforced [OF fk example_db_constraints b s e r e'] by blast
qed


text \<open>
  Claim C2, as amended. When a row is stored under a primary key and an entity with an
  equal key is passed to \<^verbatim>\<open>add_student\<close>, \<^verbatim>\<open>add_instructor\<close> or \<^verbatim>\<open>add_course\<close>, the
  stored state is left as it was and \<^verbatim>\<open>get_by_id\<close> still returns the first row; and
  when the other fields of the entity can be bound as SQL parameters, the call raises
  \<^verbatim>\<open>IntegrityError\<close> for the primary key.
\<close>

theorem add_duplicate_key:
  assumes "constraints_hold d"
  shows
  "(r \<in> set (students d) \<and> bind_param (student_id st) = Inr k \<and> sql_eq (fst r) k \<longrightarrow>
      (\<not> isl (bind_param (s_name st)) \<and> \<not> isl (bind_param (s_age st))
        \<and> \<not> isl (bind_param (s_email st)) \<longrightarrow>
         fst (add_student d st)
           = Inl (IntegrityError ''UNIQUE constraint failed: students.student_id''))
      \<and> snd (add_student d st) = d
      \<and> get_student_by_id (snd (add_student d st)) (student_id st) = Inr (Some r))
   \<and> (q \<in> set (instructors d) \<and> bind_param (instructor_id i) = Inr k \<and> sql_eq (fst q) k \<longrightarrow>
      (\<not> isl (bind_param (i_name i)) \<and> \<not> isl (bind_param (i_age i))
        \<and> \<not> isl (bind_param (i_email i)) \<longrightarrow>
         fst (add_instructor d i)
           = Inl (IntegrityError ''UNIQUE constraint failed: instructors.instructor_id''))
      \<and> snd (add_instructor d i) = d
      \<and> get_instructor_by_id (snd (add_instructor d i)) (instructor_id i) = Inr (Some q))
   \<and> (p \<in> set (courses d) \<and> bind_param (course_id c) = Inr k \<and> sql_eq (fst p) k \<longrightarrow>
      (\<not> isl (bind_param (course_name c)) \<and> \<not> isl (bind_param (course_instructor_id c)) \<longrightarrow>
         fst (add_course d c)
           = Inl (IntegrityError ''UNIQUE constraint failed: courses.course_id''))
      \<and> snd (add_course d c) = d
      \<and> get_course_by_id (snd (add_course d c)) (course_id c) = Inr (Some p))"
proof (intro conjI impI; (elim conjE)?)
  assume r: "r \<in> set (students d)" "bind_param (student_id st) = Inr k" "sql_eq (fst r) k"
  then have ex: "\<exists>x \<in> set (students d). sql_eq (fst x) k" by blast
  show "snd (add_student d st) = d"
    using r(2) ex by (simp add: add_student_def insert_student_def split: sum.splits)
  then show "get_student_by_id (snd (add_student d st)) (student_id st) = Inr (Some r)"
    using matching_single [of "students d" r k] assms r
    by (simp add: get_student_by_id_def fetchone_def constraints_hold_def)
  show "fst (add_student d st)
           = Inl (IntegrityError ''UNIQUE constraint failed: students.student_id'')"
    if "\<not> isl (bind_param (s_name st))" "\<not> isl (bind_param (s_age st))"
       "\<not> isl (bind_param (s_email st))"
    using that r(2) ex by (auto simp: add_student_def insert_student_def split: sum.splits)
next
  assume r: "q \<in> set (instructors d)" "bind_param (instructor_id i) = Inr k" "sql_eq (fst q) k"
  then have ex: "\<exists>x \<in> set (instructors d). sql_eq (fst x) k" by blast
  show "snd (add_instructor d i) = d"
    using r(2) ex by (simp add: add_instructor_def insert_instructor_def split: sum.splits)
  then show "get_instructor_by_id (snd (add_instructor d i)) (instructor_id i) = Inr (Some q)"
    using matching_single [of "instructors d" q k] assms r
    by (simp add: get_instructor_by_id_def fetchone_def constraints_hold_def)
  show "fst (add_instructor d i)
           = Inl (IntegrityError ''UNIQUE constraint failed: instructors.instructor_id'')"
    if "\<not> isl (bind_param (i_name i))" "\<not> isl (bind_param (i_age i))"
       "\<not> isl (bind_param (i_email i))"
    using that r(2) ex by (auto simp: add_instructor_def insert_instructor_def split: sum.splits)
next
  assume r: "p \<in> set (courses d)" "bind_param (course_id c) = Inr k" "sql_eq (fst p) k"
  then have ex: "\<exists>x \<in> set (courses d). sql_eq (fst x) k" by blast
  show "snd (add_course d c) = d"
    using r(2) ex by (simp add: add_course_def insert_course_def split: sum.splits)
  then show "get_course_by_id (snd (add_course d c)) (course_id c) = Inr (Some p)"
    using matching_single [of "courses d" p k] assms r
    by (simp add: get_course_by_id_def fetchone_def constraints_hold_def)
  show "fst (add_course d c)
           = Inl (IntegrityError ''UNIQUE constraint failed: courses.course_id'')"
    if "\<not> isl (bind_param (course_name c))" "\<not> isl (bind_param (course_instructor_id c))"
    using that r(2) ex by (auto simp: add_course_def insert_course_def split: sum.splits)
qed

theorem add_duplicate_key_witness:
  "fst (add_student example_db
     (Student (PyStr ''Robert'') (PyInt 30) (PyStr ''rob@x.com'') (PyStr ''S1'') []))
     = Inl (IntegrityError ''UNIQUE constraint failed: students.student_id'')
   \<and> snd (add_student example_db
     (Student (PyStr ''Robert'') (PyInt 30) (PyStr ''rob@x.com'') (PyStr ''S1'') []))
     = example_db
   \<and> get_student_by_id (snd (add_student example_db
        (Student (PyStr ''Robert'') (PyInt 30) (PyStr ''rob@x.com'') (PyStr ''S1'') [])))
        (PyStr ''S1'')
     = Inr (Some (TEXT ''S1'', TEXT ''Bob'', INTEGER 21, TEXT ''bob@x.com''))"
proof -
  define st where "st = Student (PyStr ''Robert'') (PyInt 30) (PyStr ''rob@x.com'') (PyStr ''S1'') []"
  define r where "r = (TEXT ''S1'', TEXT ''Bob'', INTEGER 21, TEXT ''bob@x.com'')"
  have stored: "r \<in> set (students example_db) \<and> bind_param (student_id st) = Inr (TEXT ''S1'')
      \<and> sql_eq (fst r) (TEXT ''S1'')"
    by (simp add: example_db_def st_def r_def)
  have binds: "\<not> isl (bind_param (s_name st)) \<and> \<not> isl (bind_param (s_age st))
      \<and> \<not> isl (bind_param (s_email st))"
    by (simp add: st_def)
  have sid: "student_id st = PyStr ''S1''" by (simp add: st_def)
  have "fst (add_student example_db st)
          = Inl (IntegrityError ''UNIQUE constraint failed: students.student_id'')
      \<and> snd (add_student example_db st) = example_db
      \<and> get_student_by_id (snd (add_student example_db st)) (student_id st) = Inr (Some r)"
    using add_duplicate_key [OF example_db_constraints, of r st "TEXT ''S1''"] stored binds
    by blast
  then show ?thesis unfolding sid unfolding st_def r_def .
qed

text \<open>
  The claim as it is written fails for an entity one of whose fields cannot be bound:
  \<^verbatim>\<open>Student("Robert", 2**63, "rob@x.com", "S1")\<close> is a valid student with the key of a
  stored row, and \<^verbatim>\<open>add_student\<close> raises \<^verbatim>\<open>OverflowError\<close> instead of
  \<^verbatim>\<open>IntegrityError\<close>, since the age does not fit SQLite's 64-bit INTEGER.
\<close>

theorem add_duplicate_key_counterexample:
  "Student_init (PyStr ''Robert'') (PyInt (2 ^ 63)) (PyStr ''rob@x.com'') (PyStr ''S1'')
     = Inr (Student (PyStr ''Robert'') (PyInt (2 ^ 63)) (PyStr ''rob@x.com'') (PyStr ''S1'') [])
   \<and> get_student_by_id example_db (PyStr ''S1'')
     = Inr (Some (TEXT ''S1'', TEXT ''Bob'', INTEGER 21, TEXT ''bob@x.com''))
   \<and> fst (add_student example_db
        (Student (PyStr ''Robert'') (PyInt (2 ^ 63)) (PyStr ''rob@x.com'') (PyStr ''S1'') []))
     = Inl OverflowError"
  by (simp add: Student_init_def Person_init_def get_student_by_id_def matching_def
      fetchone_def example_db_def add_student_def)

text \<open>
  Claim C3. When a row of \<^verbatim>\<open>registrations\<close> already holds the pair that
  \<^verbatim>\<open>register_student_in_course\<close> is called with, the call raises \<^verbatim>\<open>IntegrityError\<close>
  for the unique pair, and afterwards exactly one row holds that pair. Two pairs are the
  same when their components are equal as SQL values, which the identifiers of the
  documented type \<^verbatim>\<open>str\<close> are exactly when they are the same string.
\<close>

theorem register_twice:
  assumes "constraints_hold d"
    and "bind_param sid = Inr s" and "bind_param cid = Inr c"
    and "r \<in> set (registrations d)" and "sql_eq (fst r) s" and "sql_eq (snd r) c"
  shows "register_student_in_course d sid cid
           = (Inl (IntegrityError
                ''UNIQUE constraint failed: registrations.student_id, registrations.course_id''), d)
       \<and> length (filter (\<lambda>q. sql_eq (fst q) s \<and> sql_eq (snd q) c)
                  (registrations (snd (register_student_in_course d sid cid)))) = 1"
proof -
  have "\<exists>q \<in> set (registrations d). sql_eq (fst q) s \<and> sql_eq (snd q) c"
    using assms(4-6) by blast
  then have reg: "register_student_in_course d sid cid
           = (Inl (IntegrityError
                ''UNIQUE constraint failed: registrations.student_id, registrations.course_id''), d)"
    using assms(2,3) by (simp add: register_student_in_course_def insert_registration_def)
  have "filter (\<lambda>q. sql_eq (fst q) s \<and> sql_eq (snd q) c) (registrations d) = [r]"
    using assms by (intro pair_single) (auto simp: constraints_hold_def)
  with reg show ?thesis by simp
qed

theorem register_twice_witness:
  "register_student_in_course example_db (PyStr ''S2'') (PyStr ''C1'')
           = (Inl (IntegrityError
                ''UNIQUE constraint failed: registrations.student_id, registrations.course_id''),
              example_db)
   \<and> length (filter (\<lambda>q. sql_eq (fst q) (TEXT ''S2'') \<and> sql_eq (snd q) (TEXT ''C1''))
        (registrations (snd (register_student_in_course example_db
           (PyStr ''S2'') (PyStr ''C1''))))) = 1"
proof -
  have m: "(TEXT ''S2'', TEXT ''C1'') \<in> set (registrations example_db)"
    by (simp add: example_db_def)
  show ?thesis
    by (rule register_twice [OF example_db_constraints _ _ m]) simp_all
qed

text \<open>
  Claim C8, as amended. When the identifier of the entity passed to \<^verbatim>\<open>update_student\<close>,
  \<^verbatim>\<open>update_instructor\<close> or \<^verbatim>\<open>update_course\<close> equals the key of no stored row, the
  stored state is left as it was, so no row is changed and \<^verbatim>\<open>get_all\<close> returns what
  it returned before; and when the other fields of the entity can be bound as SQL
  parameters, the call raises nothing.
\<close>

theorem update_unknown_id:
  "(bind_param (student_id st) = Inr k \<and> (\<forall>r \<in> set (students d). \<not> sql_eq (fst r) k) \<longrightarrow>
      (\<not> isl (bind_param (s_name st)) \<and> \<not> isl (bind_param (s_age st))
        \<and> \<not> isl (bind_param (s_email st)) \<longrightarrow> fst (update_student d st) = Inr ())
      \<and> snd (update_student d st) = d
      \<and> get_all_students (snd (update_student d st)) = get_all_students d)
   \<and> (bind_param (instructor_id i) = Inr k \<and> (\<forall>r \<in> set (instructors d). \<not> sql_eq (fst r) k) \<longrightarrow>
      (\<not> isl (bind_param (i_name i)) \<and> \<not> isl (bind_param (i_age i))
        \<and> \<not> isl (bind_param (i_email i)) \<longrightarrow> fst (update_instructor d i) = Inr ())
      \<and> snd (update_instructor d i) = d
      \<and> get_all_instructors (snd (update_instructor d i)) = get_all_instructors d)
   \<and> (bind_param (course_id c) = Inr k \<and> (\<forall>r \<in> set (courses d). \<not> sql_eq (fst r) k) \<longrightarrow>
      (\<not> isl (bind_param (course_name c)) \<and> \<not> isl (bind_param (course_instructor_id c))
         \<longrightarrow> fst (update_course d c) = Inr ())
      \<and> snd (update_course d c) = d
      \<and> get_all_courses (snd (update_course d c)) = get_all_courses d)"
  by (auto simp: update_student_def update_instructor_def update_course_def
      update_course_rows_def matching_def filter_empty_conv
      update_person_rows_no_match map_idI split: sum.splits)

theorem update_unknown_id_witness:
  "update_student example_db
     (Student (PyStr ''Zed'') (PyInt 30) (PyStr ''zed@x.com'') (PyStr ''S9'') [])
     = (Inr (), example_db)
   \<and> get_all_students (snd (update_student example_db
        (Student (PyStr ''Zed'') (PyInt 30) (PyStr ''zed@x.com'') (PyStr ''S9'') [])))
     = get_all_students example_db"
proof -
  have b: "bind_param (student_id
      (Student (PyStr ''Zed'') (PyInt 30) (PyStr ''zed@x.com'') (PyStr ''S9'') [])) = Inr (TEXT ''S9'')"
    by simp
  have n: "\<forall>r \<in> set (students example_db). \<not> sql_eq (fst r) (TEXT ''S9'')"
    by (simp add: example_db_def)
  show ?thesis
    using b n update_unknown_id [of
      "Student (PyStr ''Zed'') (PyInt 30) (PyStr ''zed@x.com'') (PyStr ''S9'') []"
      "TEXT ''S9''" example_db]
    by (simp add: prod_eq_iff)
qed

text \<open>
  The claim as it is written fails for an entity one of whose fields cannot be bound:
  \<^verbatim>\<open>Student("Zed", 2**63, "zed@x.com", "S9")\<close> is a valid student, no row has the key
  \<^verbatim>\<open>S9\<close>, and \<^verbatim>\<open>update_student\<close> raises \<^verbatim>\<open>OverflowError\<close>, since the age does not fit
  SQLite's 64-bit INTEGER.
\<close>

theorem update_unknown_id_counterexample:
  "Student_init (PyStr ''Zed'') (PyInt (2 ^ 63)) (PyStr ''zed@x.com'') (PyStr ''S9'')
     = Inr (Student (PyStr ''Zed'') (PyInt (2 ^ 63)) (PyStr ''zed@x.com'') (PyStr ''S9'') [])
   \<and> get_student_by_id example_db (PyStr ''S9'') = Inr None
   \<and> fst (update_student example_db
        (Student (PyStr ''Zed'') (PyInt (2 ^ 63)) (PyStr ''zed@x.com'') (PyStr ''S9'') []))
     = Inl OverflowError"
  by (simp add: Student_init_def Person_init_def get_student_by_id_def matching_def
      fetchone_def example_db_def update_student_def)

subsection \<open>The display query\<close>

lemma sql_le_total: "sql_le a b \<or> sql_le b a"
  by (cases a; cases b) auto

lemma sql_le_trans: "sql_le a b \<Longrightarrow> sql_le b c \<Longrightarrow> sql_le a c"
  by (cases a; cases b; cases c) auto

lemma display_le_cases:
  "display_le x y \<longleftrightarrow>
     sql_le (fst (snd x)) (fst (snd y))
     \<and> (sql_le (fst (snd y)) (fst (snd x)) \<longrightarrow>
          sql_le (snd (snd (snd x))) (snd (snd (snd y))))"
  using sql_le_total [of "fst (snd x)" "fst (snd y)"]
  by (auto simp: display_le_def Let_def)

lemma display_le_total: "display_le x y \<or> display_le y x"
  using sql_le_total by (auto simp: display_le_def Let_def)

lemma display_le_trans: "display_le x y \<Longrightarrow> display_le y z \<Longrightarrow> display_le x z"
proof -
  assume xy: "display_le x y" and yz: "display_le y z"
  have xy': "sql_le (fst (snd x)) (fst (snd y))"
    and yz': "sql_le (fst (snd y)) (fst (snd z))"
    using xy yz by (simp_all add: display_le_cases)
  have xz: "sql_le (fst (snd x)) (fst (snd z))"
    using xy' yz' by (rule sql_le_trans)
  have "sql_le (snd (snd (snd x))) (snd (snd (snd z)))"
    if zx: "sql_le (fst (snd z)) (fst (snd x))"
  proof -
    have "sql_le (fst (snd y)) (fst (snd x))" using yz' zx by (rule sql_le_trans)
    then have 1: "sql_le (snd (snd (snd x))) (snd (snd (snd y)))"
      using xy by (simp add: display_le_cases)
    have "sql_le (fst (snd z)) (fst (snd y))" using zx xy' by (rule sql_le_trans)
    then have 2: "sql_le (snd (snd (snd y))) (snd (snd (snd z)))"
      using yz by (simp add: display_le_cases)
    from 1 2 show ?thesis by (rule sql_le_trans)
  qed
  with xz show ?thesis by (simp add: display_le_cases)
qed

lemma mset_insort_by: "mset (insort_by le x xs) = add_mset x (mset xs)"
  by (induction xs) auto

lemma mset_order_by: "mset (order_by le xs) = mset xs"
  unfolding order_by_def by (induction xs) (auto simp: mset_insort_by)

lemma set_insort_by: "set (insort_by le x xs) = insert x (set xs)"
  by (induction xs) auto

lemma sorted_insort_by:
  assumes total: "\<And>a b. le a b \<or> le b a" and trans: "\<And>a b c. le a b \<Longrightarrow> le b c \<Longrightarrow> le a c"
  shows "sorted_wrt le xs \<Longrightarrow> sorted_wrt le (insort_by le x xs)"
proof (induction xs)
  case Nil
  then show ?case by simp
next
  case (Cons y ys)
  show ?case
  proof (cases "le x y")
    case True
    then have "\<forall>z \<in> set ys. le x z" using Cons.prems trans by auto
    with True Cons.prems show ?thesis by simp
  next
    case False
    then have "le y x" using total by blast
    with False Cons show ?thesis by (auto simp: set_insort_by)
  qed
qed

lemma sorted_order_by:
  assumes "\<And>a b. le a b \<or> le b a" and "\<And>a b c. le a b \<Longrightarrow> le b c \<Longrightarrow> le a c"
  shows "sorted_wrt le (order_by le xs)"
  unfolding order_by_def
  by (induction xs) (auto intro: sorted_insort_by [OF assms])

lemma sorted_display: "sorted_wrt display_le (get_registrations_for_display d)"
  unfolding get_registrations_for_display_def
  by (rule sorted_order_by) (use display_le_total display_le_trans in blast)+

text \<open>Two sorted lists with the same elements are equal when no two different elements tie.\<close>

lemma sorted_wrt_unique:
  assumes "\<forall>x \<in> set xs. \<forall>y \<in> set xs. le x y \<and> le y x \<longrightarrow> x = y"
  shows "sorted_wrt le xs \<Longrightarrow> sorted_wrt le ys \<Longrightarrow> mset xs = mset ys \<Longrightarrow> xs = ys"
  using assms
proof (induction xs arbitrary: ys)
  case Nil
  then show ?case by simp
next
  case (Cons x xs)
  from Cons.prems(3) obtain y ys' where ys: "ys = y # ys'"
    by (cases ys) auto
  have sets: "set (x # xs) = set (y # ys')"
    using Cons.prems(3) ys by (metis set_mset_mset)
  have "x = y"
  proof (rule ccontr)
    assume ne: "x \<noteq> y"
    then have "y \<in> set xs" using sets by auto
    then have 1: "le x y" using Cons.prems(1) by simp
    from ne have "x \<in> set ys'" using sets by auto
    then have 2: "le y x" using Cons.prems(2) ys by simp
    from 1 2 ne Cons.prems(4) sets show False by auto
  qed
  moreover have "xs = ys'"
    using Cons.IH [of ys'] Cons.prems ys \<open>x = y\<close> by auto
  ultimately show ?case using ys by simp
qed

lemma mset_concat_map:
  "mset (concat (map f xs)) = (\<Sum>x \<in># mset xs. mset (f x))"
  by (induction xs) auto

lemma mset_registrations_join:
  "mset (registrations_join d) =
     (\<Sum>r \<in># mset (registrations d).
        \<Sum>s \<in># filter_mset (\<lambda>s. sql_eq (fst r) (fst s)) (mset (students d)).
          image_mset (\<lambda>c. (fst s, fst (snd s), fst c, fst (snd c)))
            (filter_mset (\<lambda>c. sql_eq (snd r) (fst c)) (mset (courses d))))"
  by (simp add: registrations_join_def mset_concat_map)

lemma in_concat_map: "x \<in> set (concat (map f xs)) \<longleftrightarrow> (\<exists>y \<in> set xs. x \<in> set (f y))"
  by auto

lemma in_registrations_join:
  "x \<in> set (registrations_join d) \<longleftrightarrow>
     (\<exists>r \<in> set (registrations d). \<exists>s \<in> set (students d). \<exists>c \<in> set (courses d).
        sql_eq (fst r) (fst s) \<and> sql_eq (snd r) (fst c)
        \<and> x = (fst s, fst (snd s), fst c, fst (snd c)))"
  unfolding registrations_join_def in_concat_map set_map set_filter image_iff Bex_def mem_Collect_eq
  by blast

lemma set_registrations_join:
  "set (registrations_join d) =
     {(sid, sname, cid, cname).
        \<exists>r_sid r_cid sage semail c_iid.
          (r_sid, r_cid) \<in> set (registrations d)
        \<and> (sid, sname, sage, semail) \<in> set (students d)
        \<and> (cid, cname, c_iid) \<in> set (courses d)
        \<and> sql_eq r_sid sid \<and> sql_eq r_cid cid}"
proof (intro set_eqI iffI)
  fix x assume "x \<in> set (registrations_join d)"
  then obtain r s c where *: "r \<in> set (registrations d)" "s \<in> set (students d)"
      "c \<in> set (courses d)" "sql_eq (fst r) (fst s)" "sql_eq (snd r) (fst c)"
      "x = (fst s, fst (snd s), fst c, fst (snd c))"
    unfolding in_registrations_join by blast
  obtain r1 r2 where r: "r = (r1, r2)" by (cases r)
  obtain s1 s2 s3 s4 where s: "s = (s1, s2, s3, s4)" by (cases s)
  obtain c1 c2 c3 where c: "c = (c1, c2, c3)" by (cases c)
  show "x \<in> {(sid, sname, cid, cname).
        \<exists>r_sid r_cid sage semail c_iid.
          (r_sid, r_cid) \<in> set (registrations d)
        \<and> (sid, sname, sage, semail) \<in> set (students d)
        \<and> (cid, cname, c_iid) \<in> set (courses d)
        \<and> sql_eq r_sid sid \<and> sql_eq r_cid cid}"
    using * unfolding r s c by auto
next
  fix x assume "x \<in> {(sid, sname, cid, cname).
        \<exists>r_sid r_cid sage semail c_iid.
          (r_sid, r_cid) \<in> set (registrations d)
        \<and> (sid, sname, sage, semail) \<in> set (students d)
        \<and> (cid, cname, c_iid) \<in> set (courses d)
        \<and> sql_eq r_sid sid \<and> sql_eq r_cid cid}"
  then obtain sid sname cid cname r_sid r_cid sage semail c_iid where
    *: "x = (sid, sname, cid, cname)" "(r_sid, r_cid) \<in> set (registrations d)"
      "(sid, sname, sage, semail) \<in> set (students d)" "(cid, cname, c_iid) \<in> set (courses d)"
      "sql_eq r_sid sid" "sql_eq r_cid cid"
    by auto
  show "x \<in> set (registrations_join d)"
    unfolding in_registrations_join
    by (rule bexI [OF _ *(2)], rule bexI [OF _ *(3)], rule bexI [OF _ *(4)]) (simp add: *)
qed

text \<open>In a sorted list the elements strictly below a bound form a prefix.\<close>

lemma sorted_below_prefix:
  assumes total: "\<And>a b. le a b \<or> le b a" and trans: "\<And>a b c. le a b \<Longrightarrow> le b c \<Longrightarrow> le a c"
  shows "sorted_wrt le xs \<Longrightarrow> i < length xs \<Longrightarrow>
         (\<not> le a (xs ! i)) = (i < length (filter (\<lambda>z. \<not> le a z) xs))"
proof (induction xs arbitrary: i)
  case Nil
  then show ?case by simp
next
  case (Cons x xs)
  show ?case
  proof (cases "le a x")
    case True
    then have all: "\<forall>z \<in> set (x # xs). le a z"
      using Cons.prems(1) trans by auto
    then have "filter (\<lambda>z. \<not> le a z) (x # xs) = []"
      by (simp add: filter_empty_conv)
    moreover have "le a ((x # xs) ! i)"
      using all Cons.prems(2) nth_mem by blast
    ultimately show ?thesis by simp
  next
    case False
    show ?thesis
    proof (cases i)
      case 0
      with False show ?thesis by simp
    next
      case (Suc k)
      with Cons.IH [of k] Cons.prems False show ?thesis by simp
    qed
  qed
qed

lemma sorted_positions_tie:
  assumes total: "\<And>a b. le a b \<or> le b a" and trans: "\<And>a b c. le a b \<Longrightarrow> le b c \<Longrightarrow> le a c"
    and "sorted_wrt le xs" and "sorted_wrt le ys" and "mset xs = mset ys" and "i < length xs"
  shows "le (xs ! i) (ys ! i)"
proof (rule ccontr)
  assume n: "\<not> le (xs ! i) (ys ! i)"
  have len: "length ys = length xs" using assms(5) by (metis size_mset)
  have "mset (filter (\<lambda>z. \<not> le (xs ! i) z) xs) = mset (filter (\<lambda>z. \<not> le (xs ! i) z) ys)"
    using assms(5) by simp
  then have eq: "length (filter (\<lambda>z. \<not> le (xs ! i) z) xs)
      = length (filter (\<lambda>z. \<not> le (xs ! i) z) ys)"
    by (metis size_mset)
  have "i < length (filter (\<lambda>z. \<not> le (xs ! i) z) ys)"
    using sorted_below_prefix [where le = le and xs = ys and i = i and a = "xs ! i"]
      total trans assms(4) n assms(6) len by auto
  then have "\<not> le (xs ! i) (xs ! i)"
    using sorted_below_prefix [where le = le and xs = xs and i = i and a = "xs ! i"]
      total trans assms(3) assms(6) eq by auto
  then show False using total by blast
qed

lemma mset_join_same_rows:
  "mset (students d') = mset (students d) \<Longrightarrow> mset (courses d') = mset (courses d) \<Longrightarrow>
   mset (registrations d') = mset (registrations d) \<Longrightarrow>
   mset (registrations_join d') = mset (registrations_join d)"
  by (simp add: mset_registrations_join)

lemma set_order_by: "set (order_by le xs) = set xs"
  unfolding order_by_def by (induction xs) (auto simp: set_insort_by)

lemma length_insort_by: "length (insort_by le x xs) = Suc (length xs)"
  by (induction xs) auto

lemma length_order_by: "length (order_by le xs) = length xs"
  unfolding order_by_def by (induction xs) (auto simp: length_insort_by)

lemma mset_display_same_rows:
  assumes "mset (students d') = mset (students d)" and "mset (courses d') = mset (courses d)"
    and "mset (registrations d') = mset (registrations d)"
  shows "mset (get_registrations_for_display d') = mset (get_registrations_for_display d)"
  unfolding get_registrations_for_display_def mset_order_by
  using assms by (rule mset_join_same_rows)

lemma display_positions_tie:
  assumes "mset (get_registrations_for_display d') = mset (get_registrations_for_display d)"
    and "i < length (get_registrations_for_display d')"
  shows "display_le (get_registrations_for_display d' ! i) (get_registrations_for_display d ! i)"
  by (rule sorted_positions_tie [where le = display_le,
        OF display_le_total display_le_trans sorted_display sorted_display assms])

lemma display_unique:
  assumes "mset (get_registrations_for_display d') = mset (get_registrations_for_display d)"
    and "\<forall>x \<in> set (registrations_join d). \<forall>y \<in> set (registrations_join d).
           display_le x y \<and> display_le y x \<longrightarrow> x = y"
  shows "get_registrations_for_display d = get_registrations_for_display d'"
proof (rule sorted_wrt_unique [where le = display_le])
  show "\<forall>x \<in> set (get_registrations_for_display d).
          \<forall>y \<in> set (get_registrations_for_display d). display_le x y \<and> display_le y x \<longrightarrow> x = y"
    using assms(2) by (simp only: get_registrations_for_display_def set_order_by)
  show "mset (get_registrations_for_display d) = mset (get_registrations_for_display d')"
    using assms(1) by (rule sym)
qed (rule sorted_display)+

lemma display_nth_sorted:
  "i < j \<Longrightarrow> j < length (get_registrations_for_display d) \<Longrightarrow>
   display_le (get_registrations_for_display d ! i) (get_registrations_for_display d ! j)"
  using sorted_display [of d] by (simp only: sorted_wrt_iff_nth_less)

text \<open>
  Claim C7, as amended. \<^verbatim>\<open>get_registrations_for_display\<close> returns a rearrangement of
  the join of \<^verbatim>\<open>registrations\<close> with \<^verbatim>\<open>students\<close> and \<^verbatim>\<open>courses\<close> on the two
  identifiers, projected to (student id, student name, course id, course name): the
  rows are those tuples for which a registration, a student and a course with equal
  identifiers are stored. The result is sorted by student name and, among equal student
  names, by course name. For a fixed set of stored rows it is determined up to the order
  of rows that agree on both names: two states that hold the same rows, in whatever
  order, give results of the same length whose rows at each position are equal in the
  sort order, and the same result when no two different rows of the join agree on both
  names.
\<close>

theorem display_sorted_join:
  "mset (get_registrations_for_display d) = mset (registrations_join d)
   \<and> set (get_registrations_for_display d) =
       {(sid, sname, cid, cname).
          \<exists>r_sid r_cid sage semail c_iid.
            (r_sid, r_cid) \<in> set (registrations d)
          \<and> (sid, sname, sage, semail) \<in> set (students d)
          \<and> (cid, cname, c_iid) \<in> set (courses d)
          \<and> sql_eq r_sid sid \<and> sql_eq r_cid cid}
   \<and> (\<forall>i j. i < j \<and> j < length (get_registrations_for_display d) \<longrightarrow>
          sql_le (fst (snd (get_registrations_for_display d ! i)))
                 (fst (snd (get_registrations_for_display d ! j)))
        \<and> (sql_le (fst (snd (get_registrations_for_display d ! j)))
                   (fst (snd (get_registrations_for_display d ! i))) \<longrightarrow>
             sql_le (snd (snd (snd (get_registrations_for_display d ! i))))
                    (snd (snd (snd (get_registrations_for_display d ! j))))))
   \<and> (\<forall>d'. mset (students d') = mset (students d) \<and> mset (courses d') = mset (courses d)
           \<and> mset (registrations d') = mset (registrations d) \<longrightarrow>
          length (get_registrations_for_display d') = length (get_registrations_for_display d)
        \<and> (\<forall>i < length (get_registrations_for_display d).
              display_le (get_registrations_for_display d ! i)
                         (get_registrations_for_display d' ! i)
            \<and> display_le (get_registrations_for_display d' ! i)
                         (get_registrations_for_display d ! i))
        \<and> ((\<forall>x \<in> set (registrations_join d). \<forall>y \<in> set (registrations_join d).
               display_le x y \<and> display_le y x \<longrightarrow> x = y) \<longrightarrow>
            get_registrations_for_display d' = get_registrations_for_display d))"
proof (intro conjI allI impI)
  show "mset (get_registrations_for_display d) = mset (registrations_join d)"
    by (simp only: get_registrations_for_display_def mset_order_by)
  show "set (get_registrations_for_display d) =
       {(sid, sname, cid, cname).
          \<exists>r_sid r_cid sage semail c_iid.
            (r_sid, r_cid) \<in> set (registrations d)
          \<and> (sid, sname, sage, semail) \<in> set (students d)
          \<and> (cid, cname, c_iid) \<in> set (courses d)
          \<and> sql_eq r_sid sid \<and> sql_eq r_cid cid}"
    by (simp only: get_registrations_for_display_def set_order_by set_registrations_join)
  show "sql_le (fst (snd (get_registrations_for_display d ! i)))
                 (fst (snd (get_registrations_for_display d ! j)))"
    if "i < j \<and> j < length (get_registrations_for_display d)" for i j
    using display_nth_sorted [of i j d] that by (simp only: display_le_cases)
  show "sql_le (snd (snd (snd (get_registrations_for_display d ! i))))
                    (snd (snd (snd (get_registrations_for_display d ! j))))"
    if "i < j \<and> j < length (get_registrations_for_display d)"
      and "sql_le (fst (snd (get_registrations_for_display d ! j)))
                   (fst (snd (get_registrations_for_display d ! i)))" for i j
    using display_nth_sorted [of i j d] that by (simp only: display_le_cases)
next
  fix d' :: db
  assume same: "mset (students d') = mset (students d) \<and> mset (courses d') = mset (courses d)
           \<and> mset (registrations d') = mset (registrations d)"
  have m: "mset (get_registrations_for_display d') = mset (get_registrations_for_display d)"
    using same by (intro mset_display_same_rows) simp_all
  show len: "length (get_registrations_for_display d')
      = length (get_registrations_for_display d)"
    using arg_cong [OF m, of size] by (simp only: size_mset)
  show "display_le (get_registrations_for_display d ! i) (get_registrations_for_display d' ! i)"
    if "i < length (get_registrations_for_display d)" for i
    using m [symmetric] that by (rule display_positions_tie)
  show "display_le (get_registrations_for_display d' ! i) (get_registrations_for_display d ! i)"
    if "i < length (get_registrations_for_display d)" for i
    using m that [folded len] by (rule display_positions_tie)
  show "get_registrations_for_display d' = get_registrations_for_display d"
    if "\<forall>x \<in> set (registrations_join d). \<forall>y \<in> set (registrations_join d).
               display_le x y \<and> display_le y x \<longrightarrow> x = y"
    using display_unique [OF m that] by (rule sym)
qed

theorem display_sorted_join_witness:
  "get_registrations_for_display example_db =
     [(TEXT ''S2'', TEXT ''Alice'', TEXT ''C2'', TEXT ''Art''),
      (TEXT ''S2'', TEXT ''Alice'', TEXT ''C1'', TEXT ''Math''),
      (TEXT ''S1'', TEXT ''Bob'', TEXT ''C2'', TEXT ''Art''),
      (TEXT ''S1'', TEXT ''Bob'', TEXT ''C1'', TEXT ''Math'')]
   \<and> get_registrations_for_display
        (example_db\<lparr>students := rev (students example_db),
                     registrations := rev (registrations example_db)\<rparr>)
     = get_registrations_for_display example_db"
proof -
  have out: "get_registrations_for_display example_db =
     [(TEXT ''S2'', TEXT ''Alice'', TEXT ''C2'', TEXT ''Art''),
      (TEXT ''S2'', TEXT ''Alice'', TEXT ''C1'', TEXT ''Math''),
      (TEXT ''S1'', TEXT ''Bob'', TEXT ''C2'', TEXT ''Art''),
      (TEXT ''S1'', TEXT ''Bob'', TEXT ''C1'', TEXT ''Math'')]"
    by (simp add: get_registrations_for_display_def registrations_join_def order_by_def
        example_db_def display_le_def)
  have same: "mset (students (example_db\<lparr>students := rev (students example_db),
                     registrations := rev (registrations example_db)\<rparr>)) = mset (students example_db)
      \<and> mset (courses (example_db\<lparr>students := rev (students example_db),
                     registrations := rev (registrations example_db)\<rparr>)) = mset (courses example_db)
      \<and> mset (registrations (example_db\<lparr>students := rev (students example_db),
                     registrations := rev (registrations example_db)\<rparr>))
          = mset (registrations example_db)"
    by simp
  have no_ties: "\<forall>x \<in> set (registrations_join example_db).
      \<forall>y \<in> set (registrations_join example_db). display_le x y \<and> display_le y x \<longrightarrow> x = y"
    by (simp add: registrations_join_def example_db_def display_le_def)
  have "get_registrations_for_display
        (example_db\<lparr>students := rev (students example_db),
                     registrations := rev (registrations example_db)\<rparr>)
     = get_registrations_for_display example_db"
    using display_sorted_join [of example_db] same no_ties by blast
  with out show ?thesis by blast
qed

text \<open>
  The claim as it is written fails where rows tie: with two students of the same name
  registered for one course, two states that hold the same rows return the two result
  rows in different orders.
\<close>

theorem display_order_counterexample:
  "mset (students namesakes_db') = mset (students namesakes_db)
   \<and> mset (courses namesakes_db') = mset (courses namesakes_db)
   \<and> mset (registrations namesakes_db') = mset (registrations namesakes_db)
   \<and> get_registrations_for_display namesakes_db
       = [(TEXT ''S1'', TEXT ''Sam'', TEXT ''C1'', TEXT ''Math''),
          (TEXT ''S2'', TEXT ''Sam'', TEXT ''C1'', TEXT ''Math'')]
   \<and> get_registrations_for_display namesakes_db'
       = [(TEXT ''S2'', TEXT ''Sam'', TEXT ''C1'', TEXT ''Math''),
          (TEXT ''S1'', TEXT ''Sam'', TEXT ''C1'', TEXT ''Math'')]
   \<and> get_registrations_for_display namesakes_db' \<noteq> get_registrations_for_display namesakes_db"
  by (simp add: namesakes_db'_def namesakes_db_def get_registrations_for_display_def
      registrations_join_def order_by_def display_le_def)

end
